theory Spec2Isabelle
  imports Main
begin

section \<open>JavaScript values, errors and promises\<close>

text \<open>
  The data that crosses the client's boundary (channel replies, pushed messages, HTTP
  response bodies) is decoded JSON, or \<open>undefined\<close> where a property is absent.
  Numbers are kept integral: nothing below computes with them.
\<close>

datatype jsval =
    Undefined
  | Null
  | JBool bool
  | JNum int
  | JStr string
  | JArr "jsval list"
  | JObj "(string \<times> jsval) list"

text \<open>
  An \<open>Error\<close> object, by its \<open>name\<close> and \<open>message\<close>. A promise is rejected
  either with such an object (a \<open>throw\<close> inside an async function) or with whatever
  value the code hands to \<open>reject\<close> (a channel's reply payload).
\<close>

datatype js_error = JsError (err_name: string) (err_message: string)

datatype reason = Exception js_error | Payload jsval

text \<open>
  The state of a promise once the world has answered: \<open>Pending\<close> is a promise that
  never settles (no handler of the code is ever called for it).
\<close>

datatype 'a outcome = Resolved 'a | Rejected reason | Pending

text \<open>
  Reading \<open>v.k\<close>: a \<open>TypeError\<close> on \<open>undefined\<close> and \<open>null\<close>, the own property
  of a decoded object, and \<open>undefined\<close> for a name the value does not carry. It is
  used only with the names \<open>data\<close>, \<open>errors\<close>, \<open>result\<close> and
  \<open>subscriptionId\<close>, none of which a string, number, boolean or array inherits.
\<close>

definition type_error :: "string \<Rightarrow> string \<Rightarrow> js_error" where
  "type_error k what =
     JsError ''TypeError'' (''Cannot read property '' @ k @ '' of '' @ what)"

fun get_prop :: "jsval \<Rightarrow> string \<Rightarrow> js_error + jsval" where
  "get_prop Undefined k = Inl (type_error k ''undefined'')"
| "get_prop Null k = Inl (type_error k ''null'')"
| "get_prop (JObj kvs) k = Inr (case map_of kvs k of None \<Rightarrow> Undefined | Some v \<Rightarrow> v)"
| "get_prop v k = Inr Undefined"

text \<open>
  \<open>a === b\<close> between two values decoded from different messages: primitives compare
  by value, and two objects or arrays are never the same reference.
\<close>

fun strict_eq :: "jsval \<Rightarrow> jsval \<Rightarrow> bool" where
  "strict_eq (JArr a) b = False"
| "strict_eq (JObj a) b = False"
| "strict_eq a b = (a = b)"

text \<open>
  The text of a number inside a template literal: its decimal digits, collected from
  the last one, after a minus sign when it is negative.
\<close>

definition digit_char :: "nat \<Rightarrow> char" where
  "digit_char d = char_of (d + 48)"

fun decimal_digits :: "nat \<Rightarrow> string \<Rightarrow> string" where
  "decimal_digits n acc =
     (if 10 \<le> n then decimal_digits (n div 10) (digit_char (n mod 10) # acc)
      else digit_char n # acc)"

declare decimal_digits.simps [simp del]

definition number_text :: "int \<Rightarrow> string" where
  "number_text i =
     (if 0 \<le> i then decimal_digits (nat i) [] else CHR ''-'' # decimal_digits (nat (- i)) [])"

section \<open>The client and the world it acts on\<close>

text \<open>
  \<open>socketBaseUrl\<close> is a string or a function of the data source
  (\<open>typeof this.config.socketBaseUrl === 'function'\<close>).
\<close>

datatype socket_url = UrlText string | UrlFn "string \<Rightarrow> string"

record config =
  dataSource :: string
  httpBaseUrl :: string
  socketBaseUrl :: socket_url
  enableQuery :: bool
  enableSubscription :: bool
  enableMutation :: bool

text \<open>
  What the constructor receives: \<open>None\<close> is a property the caller left out, which
  \<open>Object.assign\<close> then takes from the defaults.
\<close>

record user_config =
  u_dataSource :: "string option"
  u_httpBaseUrl :: "string option"
  u_socketBaseUrl :: "socket_url option"
  u_enableQuery :: "bool option"
  u_enableSubscription :: "bool option"
  u_enableMutation :: "bool option"

text \<open>
  Every call the client makes on a collaborator (axios, the socket, a channel, an event
  emitter, the timer) is recorded in order. Sockets, channels and emitters are objects
  with an identity: the number they were allocated under. What these calls do is not
  code of this repository. Two of them can fail: the request of axios, whose failure
  the code passes on, and \<open>emit\<close>, which throws what a listener throws or what the
  event implementation throws for an event nobody listens to. The calls on the socket,
  the channel and the timer are taken to return normally.
\<close>

datatype timer_callback = ReconnectSocket

datatype effect =
    HttpPost string string
  | SocketNew nat string
  | SocketConnect nat
  | SocketOnMessage nat
  | SocketOnConnError nat
  | ChannelNew nat nat string
  | ChannelJoin nat
  | ChannelPush nat string string
  | Emit nat string jsval
  | SetTimeout nat timer_callback

datatype op_kind = Query | Subscription | Mutation

text \<open>
  An entry of \<open>this.subscriptions\<close>: the emitter created for the query and the
  \<open>subscriptionId\<close> property the code stores on it.
\<close>

record sub_record =
  emitter_ref :: nat
  subscriptionId :: jsval

text \<open>
  The fields of \<open>this\<close> the code reads and writes, with the part of the world the
  properties observe: the channels whose join the server acknowledged (\<open>isJoined()\<close>),
  the listeners the holders of the emitters have attached, the allocation counter and
  the effects issued so far. \<open>subscriptions\<close> holds the own properties of the
  JavaScript object in the order they were created; query ids are taken not to be names
  every object inherits, such as \<open>constructor\<close>. A listener is an emitter, an event
  name and what the callback throws, if it throws. The generated functions are the
  entries of \<open>fns\<close>, each tagged with its \<open>type\<close> and carrying its builder.
\<close>

record 'b client =
  cfg :: config
  fns :: "(string \<times> op_kind \<times> 'b) list"
  subscriptions :: "(string \<times> sub_record) list"
  socket :: "nat option"
  channel :: "nat option"
  joined :: "nat list"
  listeners :: "(nat \<times> string \<times> js_error option) list"
  next_ref :: nat
  trace :: "effect list"

text \<open>\<open>obj[k] = v\<close> on a plain object: an existing key keeps its place.\<close>

fun assign_prop :: "'k \<Rightarrow> 'v \<Rightarrow> ('k \<times> 'v) list \<Rightarrow> ('k \<times> 'v) list" where
  "assign_prop k v [] = [(k, v)]"
| "assign_prop k v ((k', v') # kvs) =
     (if k = k' then (k, v) # kvs else (k', v') # assign_prop k v kvs)"

text \<open>
  The order in which \<open>Object.keys\<close> lists the properties of a plain object: the keys
  that are array indices (the decimal text, without a leading zero, of a number below
  \<open>2^32 - 1\<close>) by ascending value, then the other keys in the order they were
  created.
\<close>

definition is_digit :: "char \<Rightarrow> bool" where
  "is_digit c = (c \<in> set ''0123456789'')"

definition index_value :: "string \<Rightarrow> nat" where
  "index_value k = foldl (\<lambda>n c. 10 * n + (of_char c - 48)) 0 k"

definition is_array_index :: "string \<Rightarrow> bool" where
  "is_array_index k =
     (case k of
        [] \<Rightarrow> False
      | c # cs \<Rightarrow>
          list_all is_digit k \<and> (c \<noteq> CHR ''0'' \<or> cs = []) \<and> index_value k < 4294967295)"

definition object_entries :: "(string \<times> 'v) list \<Rightarrow> (string \<times> 'v) list" where
  "object_entries kvs =
     sort_key (\<lambda>(k, v). index_value k) (filter (\<lambda>(k, v). is_array_index k) kvs)
     @ filter (\<lambda>(k, v). \<not> is_array_index k) kvs"

section \<open>Requests\<close>

text \<open>
  \<open>axios.post(url, { query })\<close> either resolves with a response (its \<open>status\<close> and
  its decoded body \<open>data\<close>) or rejects.
\<close>

datatype axios_result = AxiosResponse int jsval | AxiosRejected js_error

text \<open>
  \<open>_doRequest\<close>. The request is issued when the function is called; the logging call
  after the \<open>await\<close> reads \<open>res.data.data\<close> and \<open>res.data.errors\<close> before the
  status is looked at, so a body that is \<open>null\<close> or \<open>undefined\<close> rejects with the
  \<open>TypeError\<close> whatever the status.
\<close>

definition request_url :: "config \<Rightarrow> string" where
  "request_url c = httpBaseUrl c @ ''/'' @ dataSource c"

definition doRequest ::
  "(string \<Rightarrow> string \<Rightarrow> axios_result) \<Rightarrow> string \<Rightarrow> 'b client \<Rightarrow> jsval outcome \<times> 'b client" where
  "doRequest post query s =
     (let url = request_url (cfg s);
          s' = s\<lparr>trace := trace s @ [HttpPost url query]\<rparr>
      in case post url query of
           AxiosRejected e \<Rightarrow> (Rejected (Exception e), s')
         | AxiosResponse status body \<Rightarrow>
             (case get_prop body ''data'' of
                Inl e \<Rightarrow> (Rejected (Exception e), s')
              | Inr d \<Rightarrow>
                  (case get_prop body ''errors'' of
                     Inl e \<Rightarrow> (Rejected (Exception e), s')
                   | Inr errs \<Rightarrow>
                       if status = 200 then (Resolved d, s')
                       else (Rejected (Exception
                               (JsError ''Error'' (''doRequest.error: '' @ number_text status))), s'))))"

text \<open>
  \<open>doRawQuery\<close>, with the \<open>parse\<close> and \<open>print\<close> of the graphql package as
  parameters. It throws synchronously (\<open>Inl\<close>) or returns the promise of
  \<open>_doRequest\<close>; an async function never throws into the \<open>try\<close>, so the
  \<open>catch\<close> sees the errors of \<open>parse\<close> and \<open>print\<close> only.
  \<open>err.message || err.toString()\<close> is the message unless it is empty, and then what
  \<open>Error.prototype.toString\<close> prints for an empty message: the name.
\<close>

definition error_text :: "js_error \<Rightarrow> string" where
  "error_text e = (if err_message e \<noteq> [] then err_message e else err_name e)"

definition invalid_raw_query :: "js_error \<Rightarrow> js_error" where
  "invalid_raw_query e = JsError ''Error'' (''BaseClient: invalid raw query '' @ error_text e)"

definition doRawQuery ::
  "(string \<Rightarrow> js_error + 'ast) \<Rightarrow> ('ast \<Rightarrow> js_error + string) \<Rightarrow>
   (string \<Rightarrow> string \<Rightarrow> axios_result) \<Rightarrow> string \<Rightarrow> 'b client \<Rightarrow>
   (js_error + jsval outcome) \<times> 'b client" where
  "doRawQuery parse_q print_q post query s =
     (case parse_q query of
        Inl e \<Rightarrow> (Inl (invalid_raw_query e), s)
      | Inr ast \<Rightarrow>
          (case print_q ast of
             Inl e \<Rightarrow> (Inl (invalid_raw_query e), s)
           | Inr cleanQuery \<Rightarrow>
               (let (res, s') = doRequest post cleanQuery s in (Inr res, s'))))"

section \<open>The subscription channel\<close>

text \<open>
  What the subclass supplies: \<open>_getQueryId\<close>, and the event implementation, of
  which the code calls \<open>emit\<close> and reads the property \<open>emitter\<close> of an instance.
  \<open>emitterProperty\<close> is the value of that property on the instance with the given
  identity; \<open>emitUnheard\<close> is what \<open>emit\<close> throws, if anything, for an event and a
  payload when no listener is attached for that event.
\<close>

datatype stream_value = Emitter nat | Plain jsval

record hooks =
  getQueryId :: "string \<Rightarrow> string"
  emitterProperty :: "nat \<Rightarrow> stream_value"
  emitUnheard :: "string \<Rightarrow> jsval \<Rightarrow> js_error option"

text \<open>
  \<open>emitter.emit(ev, v)\<close>. The listeners attached to the emitter for the event run in
  the order they were attached; the first that throws ends the call with what it threw.
  With no listener the event implementation decides. The call is recorded either way,
  and what it threw comes back beside the state.
\<close>

fun first_throw :: "(nat \<times> string \<times> js_error option) list \<Rightarrow> js_error option" where
  "first_throw [] = None"
| "first_throw ((r, ev, None) # ls) = first_throw ls"
| "first_throw ((r, ev, Some e) # ls) = Some e"

definition emit_throws :: "hooks \<Rightarrow> 'b client \<Rightarrow> nat \<Rightarrow> string \<Rightarrow> jsval \<Rightarrow> js_error option" where
  "emit_throws h s r ev v =
     (case filter (\<lambda>(r', ev', t). r' = r \<and> ev' = ev) (listeners s) of
        [] \<Rightarrow> emitUnheard h ev v
      | l # ls \<Rightarrow> first_throw (l # ls))"

definition emit ::
  "hooks \<Rightarrow> nat \<Rightarrow> string \<Rightarrow> jsval \<Rightarrow> 'b client \<Rightarrow> js_error option \<times> 'b client" where
  "emit h r ev v s = (emit_throws h s r ev v, s\<lparr>trace := trace s @ [Emit r ev v]\<rparr>)"


text \<open>
  The answer of the server to a \<open>join\<close> or a \<open>push\<close>: the code registers
  \<open>receive('ok', ...)\<close> and \<open>receive('error', ...)\<close>; on anything else (a timeout)
  none of its callbacks runs.
\<close>

datatype reply = ReplyOk jsval | ReplyError jsval | NoReply

datatype join_state = ChannelReady nat | AwaitingJoin nat

definition socket_url_of :: "config \<Rightarrow> string" where
  "socket_url_of c =
     (case socketBaseUrl c of UrlFn f \<Rightarrow> f (dataSource c) | UrlText u \<Rightarrow> u)"

text \<open>
  \<open>_ensureSubscriptionChannel\<close> up to the promise it returns: the channel at hand when
  it is joined, and otherwise a new socket (connected, with the two handlers below
  registered on it) and a new channel on it, whose join is sent.
\<close>

definition open_channel :: "'b client \<Rightarrow> join_state \<times> 'b client" where
  "open_channel s =
     (let sock = next_ref s; ch = Suc sock
      in (AwaitingJoin ch,
          s\<lparr>socket := Some sock, channel := Some ch, next_ref := Suc ch,
            trace := trace s @
              [SocketNew sock (socket_url_of (cfg s)), SocketConnect sock,
               SocketOnMessage sock, SocketOnConnError sock,
               ChannelNew ch sock ''__absinthe__:control'', ChannelJoin ch]\<rparr>))"

definition ensureSubscriptionChannel_begin :: "'b client \<Rightarrow> join_state \<times> 'b client" where
  "ensureSubscriptionChannel_begin s =
     (case channel s of
        None \<Rightarrow> open_channel s
      | Some c \<Rightarrow> if c \<in> set (joined s) then (ChannelReady c, s) else open_channel s)"

text \<open>
  The reply to the join of channel \<open>ch\<close>. On \<open>ok\<close> the channel is joined and the
  promise resolves with \<open>this.channel\<close> as it is at that moment.
\<close>

definition join_settled :: "nat \<Rightarrow> reply \<Rightarrow> 'b client \<Rightarrow> nat option outcome \<times> 'b client" where
  "join_settled ch r s =
     (case r of
        ReplyOk res \<Rightarrow> (Resolved (channel s), s\<lparr>joined := ch # joined s\<rparr>)
      | ReplyError err \<Rightarrow> (Rejected (Payload err), s)
      | NoReply \<Rightarrow> (Pending, s))"

definition ensureSubscriptionChannel ::
  "reply \<Rightarrow> 'b client \<Rightarrow> nat option outcome \<times> 'b client" where
  "ensureSubscriptionChannel join_reply s =
     (case ensureSubscriptionChannel_begin s of
        (ChannelReady c, s') \<Rightarrow> (Resolved (Some c), s')
      | (AwaitingJoin ch, s') \<Rightarrow> join_settled ch join_reply s')"

text \<open>
  The reply to the \<open>doc\<close> push. On \<open>ok\<close> a new emitter is stored under the query id
  and then given its \<open>subscriptionId\<close>; when \<open>res\<close> has no properties to read, the
  \<open>TypeError\<close> leaves the callback before \<open>resolve\<close> is called.
\<close>

definition doc_settled ::
  "string \<Rightarrow> reply \<Rightarrow> 'b client \<Rightarrow> stream_value outcome \<times> 'b client" where
  "doc_settled queryId r s =
     (case r of
        ReplyOk res \<Rightarrow>
          (let e = next_ref s;
               s1 = s\<lparr>subscriptions :=
                        assign_prop queryId \<lparr>emitter_ref = e, subscriptionId = Undefined\<rparr>
                          (subscriptions s),
                      next_ref := Suc e\<rparr>
           in case get_prop res ''subscriptionId'' of
                Inl err \<Rightarrow> (Pending, s1)
              | Inr sid \<Rightarrow>
                  (Resolved (Emitter e),
                   s1\<lparr>subscriptions :=
                        assign_prop queryId \<lparr>emitter_ref = e, subscriptionId = sid\<rparr>
                          (subscriptions s1)\<rparr>))
      | ReplyError err \<Rightarrow> (Rejected (Payload err), s)
      | NoReply \<Rightarrow> (Pending, s))"

text \<open>
  A generated subscription function, for the builder of its key. \<open>subscriptionFn_begin\<close>
  is what runs when it is called, up to its first \<open>await\<close>: the promise is settled at
  once (the builder threw, or a record exists for the query id), or the call waits for
  the channel. \<open>subscriptionFn_resume\<close> is the rest, given the replies to the join
  (when one was sent) and to the push.
\<close>

datatype sub_step = Settled "stream_value outcome" | Awaiting string string join_state

definition subscriptionFn_begin ::
  "hooks \<Rightarrow> ('a \<Rightarrow> js_error + string) \<Rightarrow> 'a \<Rightarrow> 'b client \<Rightarrow> sub_step \<times> 'b client" where
  "subscriptionFn_begin h builder args s =
     (case builder args of
        Inl e \<Rightarrow> (Settled (Rejected (Exception e)), s)
      | Inr query \<Rightarrow>
          (let queryId = getQueryId h query
           in case map_of (subscriptions s) queryId of
                Some r \<Rightarrow> (Settled (Resolved (emitterProperty h (emitter_ref r))), s)
              | None \<Rightarrow>
                  (let (j, s') = ensureSubscriptionChannel_begin s
                   in (Awaiting query queryId j, s'))))"

definition subscriptionFn_resume ::
  "string \<Rightarrow> string \<Rightarrow> join_state \<Rightarrow> reply \<Rightarrow> reply \<Rightarrow> 'b client \<Rightarrow>
   stream_value outcome \<times> 'b client" where
  "subscriptionFn_resume query queryId j join_reply doc_reply s =
     (case (case j of
              ChannelReady c \<Rightarrow> (Resolved (Some c), s)
            | AwaitingJoin ch \<Rightarrow> join_settled ch join_reply s) of
        (Rejected e, s1) \<Rightarrow> (Rejected e, s1)
      | (Pending, s1) \<Rightarrow> (Pending, s1)
      | (Resolved None, s1) \<Rightarrow> (Rejected (Exception (type_error ''push'' ''undefined'')), s1)
      | (Resolved (Some c), s1) \<Rightarrow>
          doc_settled queryId doc_reply (s1\<lparr>trace := trace s1 @ [ChannelPush c ''doc'' query]\<rparr>))"

definition subscriptionFn ::
  "hooks \<Rightarrow> ('a \<Rightarrow> js_error + string) \<Rightarrow> 'a \<Rightarrow> reply \<Rightarrow> reply \<Rightarrow> 'b client \<Rightarrow>
   stream_value outcome \<times> 'b client" where
  "subscriptionFn h builder args join_reply doc_reply s =
     (case subscriptionFn_begin h builder args s of
        (Settled out, s') \<Rightarrow> (out, s')
      | (Awaiting query queryId j, s') \<Rightarrow>
          subscriptionFn_resume query queryId j join_reply doc_reply s')"

text \<open>
  The handler given to \<open>socket.onMessage\<close>. \<open>find\<close> visits the keys in the order
  of \<open>Object.keys\<close> and evaluates \<open>payload.subscriptionId\<close> once for each key it
  visits; a key that is the empty string is falsy. The handler returns what it threw,
  if it threw, beside the state it leaves.
\<close>

record message =
  msg_event :: string
  msg_payload :: jsval

fun find_queryId :: "(string \<times> sub_record) list \<Rightarrow> jsval \<Rightarrow> js_error + string option" where
  "find_queryId [] payload = Inr None"
| "find_queryId ((x, r) # rest) payload =
     (case get_prop payload ''subscriptionId'' of
        Inl e \<Rightarrow> Inl e
      | Inr sid \<Rightarrow>
          if strict_eq (subscriptionId r) sid then Inr (Some x) else find_queryId rest payload)"

definition onMessage :: "hooks \<Rightarrow> message \<Rightarrow> 'b client \<Rightarrow> js_error option \<times> 'b client" where
  "onMessage h m s =
     (if msg_event m = ''subscription:data'' then
        (case find_queryId (object_entries (subscriptions s)) (msg_payload m) of
           Inl e \<Rightarrow> (Some e, s)
         | Inr None \<Rightarrow> (None, s)
         | Inr (Some queryId) \<Rightarrow>
             if queryId = [] then (None, s)
             else
               (case map_of (subscriptions s) queryId of
                  None \<Rightarrow> (Some (type_error ''emit'' ''undefined''), s)
                | Some r \<Rightarrow>
                    (case get_prop (msg_payload m) ''result'' of
                       Inl e \<Rightarrow> (Some e, s)
                     | Inr res \<Rightarrow>
                         (case get_prop res ''data'' of
                            Inl e \<Rightarrow> (Some e, s)
                          | Inr d \<Rightarrow> emit h (emitter_ref r) ''data'' d s))))
      else (None, s))"




section \<open>The type graph and the builders\<close>

text \<open>
  Modelled from the spec: the type graph of the data model, whose content the source
  only hands on to the missing module \<open>./util\<close>. A type has a kind and its fields in
  order; a field has a name, a reference to its return type and its arguments; a
  reference is the name of a type under list and non-null wrappers.
\<close>

datatype type_ref = Named string | ListOf type_ref | NonNull type_ref

fun base_name :: "type_ref \<Rightarrow> string" where
  "base_name (Named n) = n"
| "base_name (ListOf t) = base_name t"
| "base_name (NonNull t) = base_name t"

datatype kind = ObjectKind | ScalarKind | EnumKind | ListKind | NonNullKind | InputKind

record arg_decl =
  arg_name :: string
  arg_type :: type_ref
  arg_default :: "jsval option"

record field_decl =
  field_name :: string
  field_type :: type_ref
  field_args :: "arg_decl list"

record type_decl =
  type_kind :: kind
  type_fields :: "field_decl list"

type_synonym type_graph = "(string \<times> type_decl) list"

text \<open>
  The schema as the constructor reads it: \<open>types\<close> and, for each kind of operation,
  the name of its root type (\<open>queryType.name\<close>) or nothing.
\<close>

record schema =
  types :: type_graph
  queryType :: "string option"
  subscriptionType :: "string option"
  mutationType :: "string option"

text \<open>
  Modelled from the spec: the module \<open>./util\<close> (\<open>getQueryBuilders\<close>,
  \<open>getMutationBuilders\<close>, \<open>getSubscriptionBuilders\<close>) is not among the sources.
  A selection names a field, the type it returns and what is selected below it.
\<close>

datatype selection = Selected string string "selection list"

text \<open>
  Modelled from the spec: the error \<open>SchemaInconsistency\<close> of the missing module
  \<open>./util\<close>, raised for a root type or a return type the graph does not hold.
\<close>

definition schema_inconsistency :: js_error where
  "schema_inconsistency = JsError ''SchemaInconsistency'' []"

text \<open>
  Modelled from the spec: the selection-set rendering of the missing module
  \<open>./util\<close>. A scalar or enum type has no sub-selection. An object type includes
  every field the exclusion predicate keeps; a field whose return type is an object type
  is rendered by recursion, and is left out when that type is already on the recursion
  path. A return type the graph does not hold fails with \<open>SchemaInconsistency\<close>.
\<close>

function (sequential)
  select_type :: "type_graph \<Rightarrow> (string \<Rightarrow> string \<Rightarrow> bool) \<Rightarrow> string list \<Rightarrow> string \<Rightarrow> js_error + selection list"
and
  select_fields :: "type_graph \<Rightarrow> (string \<Rightarrow> string \<Rightarrow> bool) \<Rightarrow> string list \<Rightarrow> string \<Rightarrow> field_decl list \<Rightarrow> js_error + selection list"
where
  "select_type g ex path tn =
     (case map_of g tn of
        None \<Rightarrow> Inl schema_inconsistency
      | Some t \<Rightarrow>
          if type_kind t = ObjectKind then select_fields g ex (tn # path) tn (type_fields t)
          else Inr [])"
| "select_fields g ex path tn [] = Inr []"
| "select_fields g ex path tn (f # fs) =
     (if ex tn (field_name f) then select_fields g ex path tn fs
      else
        (let rn = base_name (field_type f)
         in case map_of g rn of
              None \<Rightarrow> Inl schema_inconsistency
            | Some rt \<Rightarrow>
                if type_kind rt \<noteq> ObjectKind then
                  (case select_fields g ex path tn fs of
                     Inl e \<Rightarrow> Inl e
                   | Inr rest \<Rightarrow> Inr (Selected (field_name f) rn [] # rest))
                else if rn \<in> set path then select_fields g ex path tn fs
                else
                  (case select_type g ex path rn of
                     Inl e \<Rightarrow> Inl e
                   | Inr sub \<Rightarrow>
                       (case select_fields g ex path tn fs of
                          Inl e \<Rightarrow> Inl e
                        | Inr rest \<Rightarrow> Inr (Selected (field_name f) rn sub # rest)))))"
  by pat_completeness auto

termination
proof (relation "inv_image (less_than <*lex*> less_than <*lex*> less_than)
    (\<lambda>x. case x of
        Inl (g, ex, path, tn) \<Rightarrow> (card (fst ` set g - set path - {tn}), 1::nat, 0::nat)
      | Inr (g, ex, path, tn, fs) \<Rightarrow> (card (fst ` set g - set path), 0, length fs))", goal_cases)
  case 1
  show ?case by (intro wf_inv_image wf_lex_prod wf_less_than)
next
  case (2 g ex path tn t)
  have "fst ` set g - set (tn # path) = fst ` set g - set path - {tn}" by auto
  then show ?case by simp
next
  case (3 g ex path tn f fs)
  then show ?case by simp
next
  case (4 g ex path tn f fs rn rt)
  then show ?case by simp
next
  case (5 g ex path tn f fs rn rt)
  then show ?case by simp
next
  case (6 g ex path tn f fs rn rt)
  from 6 have "rn \<in> fst ` set g"
    by (metis map_of_eq_None_iff option.distinct(1))
  with 6 have "fst ` set g - set path - {rn} \<subset> fst ` set g - set path"
    by auto
  then have "card (fst ` set g - set path - {rn}) < card (fst ` set g - set path)"
    by (intro psubset_card_mono) auto
  then show ?case by simp
next
  case (7 g ex path tn f fs rn rt sub)
  then show ?case by simp
qed

declare select_type.simps [simp del]

text \<open>
  Modelled from the spec: the operation descriptor the missing module \<open>./util\<close>
  produces for a field of the root type (its declared arguments and the selection of its
  return type); the client adds the kind.
\<close>

record op_descriptor =
  op_args :: "arg_decl list"
  op_selection :: "selection list"

text \<open>
  Modelled from the spec: \<open>buildOperations\<close>, the contract of the missing
  \<open>getQueryBuilders\<close>, \<open>getMutationBuilders\<close> and \<open>getSubscriptionBuilders\<close>:
  one descriptor for each field of the root type, in order, and \<open>SchemaInconsistency\<close>
  when the root type is not in the graph or a selection cannot be rendered.
\<close>

fun build_fields ::
  "type_graph \<Rightarrow> (string \<Rightarrow> string \<Rightarrow> bool) \<Rightarrow> field_decl list \<Rightarrow>
   js_error + (string \<times> op_descriptor) list" where
  "build_fields g ex [] = Inr []"
| "build_fields g ex (f # fs) =
     (case select_type g ex [] (base_name (field_type f)) of
        Inl e \<Rightarrow> Inl e
      | Inr sel \<Rightarrow>
          (case build_fields g ex fs of
             Inl e \<Rightarrow> Inl e
           | Inr ds \<Rightarrow>
               Inr ((field_name f, \<lparr>op_args = field_args f, op_selection = sel\<rparr>) # ds)))"

definition buildOperations ::
  "type_graph \<Rightarrow> string \<Rightarrow> (string \<Rightarrow> string \<Rightarrow> bool) \<Rightarrow>
   js_error + (string \<times> op_descriptor) list" where
  "buildOperations g rootName ex =
     (case map_of g rootName of
        None \<Rightarrow> Inl schema_inconsistency
      | Some t \<Rightarrow> build_fields g ex (type_fields t))"

section \<open>Construction of the client\<close>

text \<open>
  The three functions the constructor imports from \<open>./util\<close>, as parameters: each
  takes \<open>types\<close>, \<open>rootName\<close> and \<open>ignoreFields\<close> and returns the builders by key,
  or throws.
\<close>

record 'b util =
  getQueryBuilders ::
    "type_graph \<Rightarrow> string \<Rightarrow> (string \<Rightarrow> string \<Rightarrow> bool) \<Rightarrow> js_error + (string \<times> 'b) list"
  getSubscriptionBuilders ::
    "type_graph \<Rightarrow> string \<Rightarrow> (string \<Rightarrow> string \<Rightarrow> bool) \<Rightarrow> js_error + (string \<times> 'b) list"
  getMutationBuilders ::
    "type_graph \<Rightarrow> string \<Rightarrow> (string \<Rightarrow> string \<Rightarrow> bool) \<Rightarrow> js_error + (string \<times> 'b) list"

text \<open>
  Modelled from the spec: the three functions of the missing module \<open>./util\<close>, each
  the \<open>buildOperations\<close> of the spec.
\<close>

definition spec_util :: "op_descriptor util" where
  "spec_util =
     \<lparr>getQueryBuilders = buildOperations,
      getSubscriptionBuilders = buildOperations,
      getMutationBuilders = buildOperations\<rparr>"

text \<open>
  The object under construction, \<open>this\<close>, by what the constructor writes on it and
  reads back: its own properties in the order they were created. The constructor sets
  \<open>config\<close>, \<open>schema\<close> and \<open>subscriptions\<close>; every generated function is
  assigned with \<open>this[key] = fn\<close> and so replaces whatever property or method has
  the name of its operation. \<open>generated_used\<close> lists the methods in whose place the
  constructor has called or bound a generated function.
\<close>

datatype 'b member =
    ConfigValue config
  | SchemaValue schema
  | SubscriptionsValue
  | Generated op_kind 'b

record 'b this_object =
  own :: "(string \<times> 'b member) list"
  generated_used :: "string list"

text \<open>
  \<open>this.config\<close> and \<open>this.schema\<close> as the constructor finds them. Once a
  generated function has the name, \<open>this.config.enableQuery\<close> and its like are
  \<open>undefined\<close>, and so are the \<open>types\<close> and the root types read off
  \<open>this.schema\<close>.
\<close>

definition read_config :: "'b this_object \<Rightarrow> config option" where
  "read_config th =
     (case map_of (own th) ''config'' of Some (ConfigValue c) \<Rightarrow> Some c | _ \<Rightarrow> None)"

definition read_schema :: "'b this_object \<Rightarrow> schema option" where
  "read_schema th =
     (case map_of (own th) ''schema'' of Some (SchemaValue sch) \<Rightarrow> Some sch | _ \<Rightarrow> None)"

definition enabled :: "(config \<Rightarrow> bool) \<Rightarrow> 'b this_object \<Rightarrow> bool" where
  "enabled flag th = (case read_config th of None \<Rightarrow> False | Some c \<Rightarrow> flag c)"

text \<open>
  \<open>this.m(...)\<close> for a method \<open>m\<close> of the class: an own property of that name is
  found first. A generated function is async, so calling it returns a promise and never
  throws to the constructor; what its body starts is not followed here, only noted.
\<close>

definition call_method ::
  "string \<Rightarrow> ('b this_object \<Rightarrow> js_error + 'b this_object) \<Rightarrow> 'b this_object \<Rightarrow>
   js_error + 'b this_object" where
  "call_method name method th =
     (case map_of (own th) name of
        Some (Generated k b) \<Rightarrow> Inr (th\<lparr>generated_used := generated_used th @ [name]\<rparr>)
      | _ \<Rightarrow> method th)"

text \<open>
  \<open>this._getIgnoreFields.bind(this)\<close>: the method of the subclass, unless a generated
  function has taken its name; that one answers every call with a promise, which is
  truthy.
\<close>

definition bound_ignoreFields ::
  "(string \<Rightarrow> string \<Rightarrow> bool) \<Rightarrow> 'b this_object \<Rightarrow> (string \<Rightarrow> string \<Rightarrow> bool) \<times> 'b this_object" where
  "bound_ignoreFields ignoreFields th =
     (case map_of (own th) ''_getIgnoreFields'' of
        Some (Generated k b) \<Rightarrow>
          (\<lambda>t f. True, th\<lparr>generated_used := generated_used th @ [''_getIgnoreFields'']\<rparr>)
      | _ \<Rightarrow> (ignoreFields, th))"

text \<open>
  \<open>Object.keys(builders).forEach(key => ... this[key] = fn)\<close>: the functions are
  assigned onto \<open>this\<close> one key after the other, each with its \<open>type\<close>.
\<close>

definition install_fns :: "op_kind \<Rightarrow> (string \<times> 'b) list \<Rightarrow> 'b this_object \<Rightarrow> 'b this_object" where
  "install_fns k builders th =
     th\<lparr>own := fold (\<lambda>(key, b). assign_prop key (Generated k b)) (object_entries builders) (own th)\<rparr>"

definition generateQueryFns ::
  "'b util \<Rightarrow> (string \<Rightarrow> string \<Rightarrow> bool) \<Rightarrow> 'b this_object \<Rightarrow> js_error + 'b this_object" where
  "generateQueryFns u ignoreFields th =
     (case read_schema th of
        None \<Rightarrow> Inr th
      | Some sch \<Rightarrow>
          (case queryType sch of
             None \<Rightarrow> Inr th
           | Some rootName \<Rightarrow>
               (let (ig, th') = bound_ignoreFields ignoreFields th
                in case getQueryBuilders u (types sch) rootName ig of
                     Inl e \<Rightarrow> Inl e
                   | Inr builders \<Rightarrow> Inr (install_fns Query builders th'))))"

definition generateSubscriptionFns ::
  "'b util \<Rightarrow> (string \<Rightarrow> string \<Rightarrow> bool) \<Rightarrow> 'b this_object \<Rightarrow> js_error + 'b this_object" where
  "generateSubscriptionFns u ignoreFields th =
     (case read_schema th of
        None \<Rightarrow> Inr th
      | Some sch \<Rightarrow>
          (case subscriptionType sch of
             None \<Rightarrow> Inr th
           | Some rootName \<Rightarrow>
               (let (ig, th') = bound_ignoreFields ignoreFields th
                in case getSubscriptionBuilders u (types sch) rootName ig of
                     Inl e \<Rightarrow> Inl e
                   | Inr builders \<Rightarrow> Inr (install_fns Subscription builders th'))))"

definition generateMutationFns ::
  "'b util \<Rightarrow> (string \<Rightarrow> string \<Rightarrow> bool) \<Rightarrow> 'b this_object \<Rightarrow> js_error + 'b this_object" where
  "generateMutationFns u ignoreFields th =
     (case read_schema th of
        None \<Rightarrow> Inr th
      | Some sch \<Rightarrow>
          (case mutationType sch of
             None \<Rightarrow> Inr th
           | Some rootName \<Rightarrow>
               (let (ig, th') = bound_ignoreFields ignoreFields th
                in case getMutationBuilders u (types sch) rootName ig of
                     Inl e \<Rightarrow> Inl e
                   | Inr builders \<Rightarrow> Inr (install_fns Mutation builders th'))))"

text \<open>\<open>Object.assign\<close> of the caller's configuration over the defaults.\<close>

definition assign_config :: "user_config \<Rightarrow> string \<Rightarrow> config" where
  "assign_config uc ds =
     \<lparr>dataSource = ds,
      httpBaseUrl = (case u_httpBaseUrl uc of None \<Rightarrow> ''https://ocap.arcblock.io/api'' | Some v \<Rightarrow> v),
      socketBaseUrl =
        (case u_socketBaseUrl uc of
           None \<Rightarrow> UrlFn (\<lambda>d. ''wss://ocap.arcblock.io/api/'' @ d @ ''/socket'')
         | Some v \<Rightarrow> v),
      enableQuery = (case u_enableQuery uc of None \<Rightarrow> True | Some v \<Rightarrow> v),
      enableSubscription = (case u_enableSubscription uc of None \<Rightarrow> True | Some v \<Rightarrow> v),
      enableMutation = (case u_enableMutation uc of None \<Rightarrow> True | Some v \<Rightarrow> v)\<rparr>"

text \<open>
  The three steps of the constructor that generate functions (lines 29 to 40). Each
  reads \<open>this.config\<close>, the method and \<open>this.schema\<close> as the steps before have left
  them; the second also sets \<open>this.subscriptions = {}\<close>.
\<close>

definition query_step ::
  "'b util \<Rightarrow> (string \<Rightarrow> string \<Rightarrow> bool) \<Rightarrow> 'b this_object \<Rightarrow> js_error + 'b this_object" where
  "query_step u ignoreFields th =
     (if enabled enableQuery th
      then call_method ''generateQueryFns'' (generateQueryFns u ignoreFields) th
      else Inr th)"

definition subscription_step ::
  "'b util \<Rightarrow> (string \<Rightarrow> string \<Rightarrow> bool) \<Rightarrow> 'b this_object \<Rightarrow> js_error + 'b this_object" where
  "subscription_step u ignoreFields th =
     (if enabled enableSubscription th
      then (case call_method ''generateSubscriptionFns'' (generateSubscriptionFns u ignoreFields) th of
              Inl e \<Rightarrow> Inl e
            | Inr th' \<Rightarrow>
                Inr (th'\<lparr>own := assign_prop ''subscriptions'' SubscriptionsValue (own th')\<rparr>))
      else Inr th)"

definition mutation_step ::
  "'b util \<Rightarrow> (string \<Rightarrow> string \<Rightarrow> bool) \<Rightarrow> 'b this_object \<Rightarrow> js_error + 'b this_object" where
  "mutation_step u ignoreFields th =
     (if enabled enableMutation th
      then call_method ''generateMutationFns'' (generateMutationFns u ignoreFields) th
      else Inr th)"

text \<open>
  The constructor, with \<open>_getSchema\<close> and \<open>_getIgnoreFields\<close> of the subclass as
  parameters. A \<open>throw\<close> anywhere leaves the caller of \<open>new\<close> with the error and no
  object.
\<close>

definition BaseClient ::
  "(string \<Rightarrow> schema option) \<Rightarrow> (string \<Rightarrow> string \<Rightarrow> bool) \<Rightarrow> 'b util \<Rightarrow> user_config \<Rightarrow>
   js_error + 'b this_object" where
  "BaseClient getSchema ignoreFields u uc =
     (case u_dataSource uc of
        None \<Rightarrow> Inl (JsError ''Error'' ''BaseClient requires dataSource config'')
      | Some ds \<Rightarrow>
          if ds = [] then Inl (JsError ''Error'' ''BaseClient requires dataSource config'')
          else
            (case getSchema ds of
               None \<Rightarrow> Inl (JsError ''Error'' (''BaseClient: unsupported dataSource '' @ ds))
             | Some sch \<Rightarrow>
                 (case query_step u ignoreFields
                         \<lparr>own = [(''config'', ConfigValue (assign_config uc ds)),
                                 (''schema'', SchemaValue sch)],
                          generated_used = []\<rparr> of
                    Inl e \<Rightarrow> Inl e
                  | Inr th1 \<Rightarrow>
                      (case subscription_step u ignoreFields th1 of
                         Inl e \<Rightarrow> Inl e
                       | Inr th2 \<Rightarrow> mutation_step u ignoreFields th2))))"

text \<open>
  The client the sections above start from: what a completed constructor leaves when no
  generated function has the name of a property or a method of the class, with
  \<open>this.subscriptions = {}\<close>, no socket and no channel yet, no listener, nothing
  allocated and nothing sent. (With subscriptions disabled the constructor leaves
  \<open>this.subscriptions\<close> unset; no subscription function is generated then, so
  nothing reads it.)
\<close>

definition new_client :: "config \<Rightarrow> (string \<times> op_kind \<times> 'b) list \<Rightarrow> 'b client" where
  "new_client c installed =
     \<lparr>cfg = c, fns = installed, subscriptions = [], socket = None, channel = None,
      joined = [], listeners = [], next_ref = 0, trace = []\<rparr>"

definition member_names :: "string list" where
  "member_names =
     [''config'', ''schema'', ''subscriptions'', ''socket'', ''channel'',
      ''_getSchema'', ''_getIgnoreFields'', ''_getSocketImplementation'', ''_getSocketOptions'',
      ''_getEventImplementation'', ''_getQueryId'', ''getQueries'', ''getSubscriptions'',
      ''getMutations'', ''doRawQuery'', ''generateQueryFns'', ''generateSubscriptionFns'',
      ''generateMutationFns'', ''_doRequest'', ''_ensureSubscriptionChannel'', ''_getApiList'']"

fun generated_fns :: "(string \<times> 'b member) list \<Rightarrow> (string \<times> op_kind \<times> 'b) list" where
  "generated_fns [] = []"
| "generated_fns ((key, Generated k b) # ms) = (key, k, b) # generated_fns ms"
| "generated_fns ((key, m) # ms) = generated_fns ms"

definition client_of :: "'b this_object \<Rightarrow> 'b client option" where
  "client_of th =
     (case read_config th of
        None \<Rightarrow> None
      | Some c \<Rightarrow>
          if list_all (\<lambda>(key, k, b). key \<notin> set member_names) (generated_fns (own th))
          then Some (new_client c (generated_fns (own th)))
          else None)"

text \<open>
  The names the constructor reads on \<open>this\<close> after it has begun to assign generated
  functions, and the names of the operations of a root type.
\<close>

definition construction_reads :: "string list" where
  "construction_reads =
     [''config'', ''schema'', ''generateSubscriptionFns'', ''generateMutationFns'',
      ''_getIgnoreFields'']"

definition root_fields :: "type_graph \<Rightarrow> string option \<Rightarrow> string list" where
  "root_fields g root =
     (case root of
        None \<Rightarrow> []
      | Some rootName \<Rightarrow>
          (case map_of g rootName of None \<Rightarrow> [] | Some t \<Rightarrow> map field_name (type_fields t)))"

text \<open>
  The object still has its configuration and its schema, and no generated function has
  one of the names the constructor reads.
\<close>

definition intact :: "config \<Rightarrow> schema \<Rightarrow> 'b this_object \<Rightarrow> bool" where
  "intact c sch th =
     (map_of (own th) ''config'' = Some (ConfigValue c)
      \<and> map_of (own th) ''schema'' = Some (SchemaValue sch)
      \<and> (\<forall>n \<in> set construction_reads. \<forall>k b. map_of (own th) n \<noteq> Some (Generated k b)))"

section \<open>Observations\<close>

text \<open>
  What the properties below read off a trace: the \<open>doc\<close> pushes (channel and query),
  the sockets created, the joins sent, the events emitted and the timers armed.
\<close>

fun doc_pushes :: "effect list \<Rightarrow> (nat \<times> string) list" where
  "doc_pushes [] = []"
| "doc_pushes (ChannelPush c ev q # es) =
     (if ev = ''doc'' then (c, q) # doc_pushes es else doc_pushes es)"
| "doc_pushes (e # es) = doc_pushes es"

fun sockets_created :: "effect list \<Rightarrow> nat list" where
  "sockets_created [] = []"
| "sockets_created (SocketNew k url # es) = k # sockets_created es"
| "sockets_created (e # es) = sockets_created es"

fun joins_sent :: "effect list \<Rightarrow> nat list" where
  "joins_sent [] = []"
| "joins_sent (ChannelJoin c # es) = c # joins_sent es"
| "joins_sent (e # es) = joins_sent es"

fun http_posts :: "effect list \<Rightarrow> (string \<times> string) list" where
  "http_posts [] = []"
| "http_posts (HttpPost url q # es) = (url, q) # http_posts es"
| "http_posts (e # es) = http_posts es"



text \<open>
  A subclass as the examples use it: the query id is the rendered query itself, and the
  event implementation behaves as Node's \<open>events.EventEmitter\<close>: its instances have
  no property \<open>emitter\<close>, and \<open>emit\<close> throws for an \<open>error\<close> event that has no
  listener (the message of that error, which prints the payload, is cut short here).
\<close>

definition node_hooks :: hooks where
  "node_hooks =
     \<lparr>getQueryId = (\<lambda>q. q), emitterProperty = (\<lambda>r. Plain Undefined),
      emitUnheard = (\<lambda>ev v. if ev = ''error'' then Some (JsError ''Error'' ''Unhandled error.'')
                             else None)\<rparr>"

definition example_user_config :: user_config where
  "example_user_config =
     \<lparr>u_dataSource = Some ''eth'', u_httpBaseUrl = None, u_socketBaseUrl = None,
      u_enableQuery = None, u_enableSubscription = None, u_enableMutation = None\<rparr>"

definition example_config :: config where
  "example_config = assign_config example_user_config ''eth''"

definition example_client :: "unit client" where
  "example_client = new_client example_config []"

text \<open>
  A builder with one argument, the address watched: different addresses render
  different operations.
\<close>

definition example_builder :: "string \<Rightarrow> js_error + string" where
  "example_builder address =
     Inr (''subscription { newTx(address: '' @ address @ '') { hash } }'')"

text \<open>
  The example client after a first subscription, whose join and push the server
  acknowledges, and after a second one for another address, which finds the channel
  joined.
\<close>

definition example_joined :: "unit client" where
  "example_joined =
     snd (subscriptionFn node_hooks example_builder ''0xa'' (ReplyOk (JObj []))
            (ReplyOk (JObj [(''subscriptionId'', JStr ''sub:1'')])) example_client)"

definition example_subscribed :: "unit client" where
  "example_subscribed =
     snd (subscriptionFn node_hooks example_builder ''0xb'' NoReply
            (ReplyOk (JObj [(''subscriptionId'', JStr ''sub:2'')])) example_joined)"


text \<open>
  A graph in which every return type of every field resolves; it may be cyclic.
\<close>

definition closed_graph :: "type_graph \<Rightarrow> bool" where
  "closed_graph g =
     (\<forall>(n, t) \<in> set g. \<forall>f \<in> set (type_fields t). map_of g (base_name (field_type f)) \<noteq> None)"

text \<open>
  A chain of types that leads to an unresolvable reference: each type but the last is
  an object type of the graph with a field, not excluded, that returns the next one,
  and the last one is not in the graph.
\<close>

fun dangling_chain :: "type_graph \<Rightarrow> (string \<Rightarrow> string \<Rightarrow> bool) \<Rightarrow> string list \<Rightarrow> bool" where
  "dangling_chain g ex [] = False"
| "dangling_chain g ex [tn] = (map_of g tn = None)"
| "dangling_chain g ex (tn # un # rest) =
     (case map_of g tn of
        None \<Rightarrow> False
      | Some t \<Rightarrow>
          type_kind t = ObjectKind
          \<and> (\<exists>f \<in> set (type_fields t). \<not> ex tn (field_name f) \<and> base_name (field_type f) = un)
          \<and> dangling_chain g ex (un # rest))"

text \<open>
  \<open>unresolved g ex root ts\<close>: the root type is not in the graph, or the return type
  of one of its fields is not, or it leads there along the distinct types \<open>ts\<close>.
\<close>

definition unresolved ::
  "type_graph \<Rightarrow> (string \<Rightarrow> string \<Rightarrow> bool) \<Rightarrow> string \<Rightarrow> string list \<Rightarrow> bool" where
  "unresolved g ex root ts =
     (case map_of g root of
        None \<Rightarrow> True
      | Some t \<Rightarrow>
          \<exists>f \<in> set (type_fields t).
            dangling_chain g ex (base_name (field_type f) # ts)
            \<and> distinct (base_name (field_type f) # ts))"

definition is_object :: "type_graph \<Rightarrow> string \<Rightarrow> bool" where
  "is_object g n = (case map_of g n of None \<Rightarrow> False | Some t \<Rightarrow> type_kind t = ObjectKind)"

text \<open>
  A selection rendered below the types of \<open>path\<close> does not enter one of them again:
  no field of it returns an object type that is on the path, at any depth.
\<close>

fun no_reentry :: "type_graph \<Rightarrow> string list \<Rightarrow> selection \<Rightarrow> bool" where
  "no_reentry g path (Selected n tn subs) =
     ((is_object g tn \<longrightarrow> tn \<notin> set path) \<and> (\<forall>sub \<in> set subs. no_reentry g (tn # path) sub))"

text \<open>
  A schema with a self-referential object type: a \<open>User\<close> has a \<open>friend\<close> who is
  a \<open>User\<close>.
\<close>

definition user_graph :: type_graph where
  "user_graph =
     [(''Query'', \<lparr>type_kind = ObjectKind,
         type_fields = [\<lparr>field_name = ''me'', field_type = Named ''User'', field_args = []\<rparr>]\<rparr>),
      (''User'', \<lparr>type_kind = ObjectKind,
         type_fields =
           [\<lparr>field_name = ''id'', field_type = NonNull (Named ''ID''), field_args = []\<rparr>,
            \<lparr>field_name = ''friend'', field_type = Named ''User'', field_args = []\<rparr>,
            \<lparr>field_name = ''posts'', field_type = ListOf (Named ''Post''), field_args = []\<rparr>]\<rparr>),
      (''Post'', \<lparr>type_kind = ObjectKind,
         type_fields =
           [\<lparr>field_name = ''title'', field_type = Named ''String'', field_args = []\<rparr>,
            \<lparr>field_name = ''author'', field_type = Named ''User'', field_args = []\<rparr>]\<rparr>),
      (''ID'', \<lparr>type_kind = ScalarKind, type_fields = []\<rparr>),
      (''String'', \<lparr>type_kind = ScalarKind, type_fields = []\<rparr>)]"

text \<open>
  A schema over that graph whose mutation root names a type the graph does not hold.
\<close>

definition broken_schema :: schema where
  "broken_schema =
     \<lparr>types = user_graph, queryType = Some ''Query'', subscriptionType = None,
      mutationType = Some ''Mutation''\<rparr>"

text \<open>
  The same graph without the type \<open>String\<close>, which \<open>Post.title\<close> returns: the
  reference is two levels below the return type of \<open>me\<close>.
\<close>

definition dangling_schema :: schema where
  "dangling_schema =
     \<lparr>types = filter (\<lambda>(n, t). n \<noteq> ''String'') user_graph, queryType = Some ''Query'',
      subscriptionType = None, mutationType = None\<rparr>"

text \<open>
  A schema whose query root has an operation named \<open>schema\<close>, and whose mutation
  root names a type the graph does not hold.
\<close>

definition shadowing_schema :: schema where
  "shadowing_schema =
     \<lparr>types =
        [(''Query'', \<lparr>type_kind = ObjectKind,
            type_fields = [\<lparr>field_name = ''schema'', field_type = Named ''String'', field_args = []\<rparr>]\<rparr>),
         (''String'', \<lparr>type_kind = ScalarKind, type_fields = []\<rparr>)],
      queryType = Some ''Query'', subscriptionType = None, mutationType = Some ''Mutation''\<rparr>"

section \<open>Properties of the requests\<close>

lemma doRequest_trace:
  "trace (snd (doRequest post q s)) = trace s @ [HttpPost (request_url (cfg s)) q]"
  by (simp add: doRequest_def Let_def split: axios_result.splits sum.splits)

lemma http_posts_append: "http_posts (xs @ ys) = http_posts xs @ http_posts ys"
  by (induction xs rule: http_posts.induct) simp_all



lemma doc_pushes_append: "doc_pushes (xs @ ys) = doc_pushes xs @ doc_pushes ys"
  by (induction xs rule: doc_pushes.induct) simp_all

lemma sockets_created_append: "sockets_created (xs @ ys) = sockets_created xs @ sockets_created ys"
  by (induction xs rule: sockets_created.induct) simp_all

lemma joins_sent_append: "joins_sent (xs @ ys) = joins_sent xs @ joins_sent ys"
  by (induction xs rule: joins_sent.induct) simp_all

text \<open>
  C7. A query or mutation call sends one request and returns the data payload of the
  response, \<open>res.data.data\<close>, exactly when axios resolved with status 200 and a body
  that is not \<open>null\<close> or \<open>undefined\<close>. In every other case the promise of the call
  is rejected with an error, so the failure reaches that caller and no data value is
  returned: with the error of axios when axios rejects (as it does by default for a
  status outside 2xx), with the \<open>TypeError\<close> when the body cannot be read, and with
  \<open>doRequest.error: <status>\<close> when the status is another one.
\<close>

theorem doRequest_resolves_iff_200:
  "((fst (doRequest post q s) = Resolved v) =
      (\<exists>body. post (request_url (cfg s)) q = AxiosResponse 200 body \<and> get_prop body ''data'' = Inr v))
   \<and> (\<forall>e. post (request_url (cfg s)) q = AxiosRejected e \<longrightarrow>
         fst (doRequest post q s) = Rejected (Exception e))
   \<and> (\<forall>st body e. post (request_url (cfg s)) q = AxiosResponse st body \<longrightarrow>
         get_prop body ''data'' = Inl e \<longrightarrow>
         fst (doRequest post q s) = Rejected (Exception e))
   \<and> (\<forall>st body d. post (request_url (cfg s)) q = AxiosResponse st body \<longrightarrow>
         get_prop body ''data'' = Inr d \<longrightarrow> st \<noteq> 200 \<longrightarrow>
         fst (doRequest post q s) =
           Rejected (Exception (JsError ''Error'' (''doRequest.error: '' @ number_text st))))
   \<and> (\<forall>st body d. post (request_url (cfg s)) q = AxiosResponse st body \<longrightarrow>
         get_prop body ''data'' = Inr d \<longrightarrow> st = 200 \<longrightarrow>
         fst (doRequest post q s) = Resolved d)
   \<and> snd (doRequest post q s) = s\<lparr>trace := trace s @ [HttpPost (request_url (cfg s)) q]\<rparr>"
proof -
  have a: "get_prop body ''data'' = Inr d \<Longrightarrow> \<exists>x. get_prop body ''errors'' = Inr x" for body d
    by (cases body) auto
  show ?thesis
    by (cases "post (request_url (cfg s)) q")
       (auto simp add: doRequest_def Let_def split: sum.splits dest: a)
qed

text \<open>
  A 200 response resolves with its payload; the same body under status 500, a rejected
  request and a 200 response without a body reject, each with its error.
\<close>

theorem doRequest_resolves_iff_200_witness:
  "fst (doRequest (\<lambda>url q. AxiosResponse 200 (JObj [(''data'', JStr ''block'')])) ''{ q }''
         example_client)
     = Resolved (JStr ''block'')
   \<and> fst (doRequest (\<lambda>url q. AxiosResponse 500 (JObj [(''data'', JStr ''block'')])) ''{ q }''
         example_client)
     = Rejected (Exception (JsError ''Error'' ''doRequest.error: 500''))
   \<and> fst (doRequest (\<lambda>url q. AxiosRejected (JsError ''Error'' ''Request failed with status code 404''))
         ''{ q }'' example_client)
     = Rejected (Exception (JsError ''Error'' ''Request failed with status code 404''))
   \<and> fst (doRequest (\<lambda>url q. AxiosResponse 200 Undefined) ''{ q }'' example_client)
     = Rejected (Exception (type_error ''data'' ''undefined''))"
proof -
  have s: "number_text 500 = ''500''" by code_simp
  show ?thesis
    using doRequest_resolves_iff_200
            [of "\<lambda>url q. AxiosResponse 200 (JObj [(''data'', JStr ''block'')])" "''{ q }''"
                example_client "JStr ''block''"]
          doRequest_resolves_iff_200
            [of "\<lambda>url q. AxiosResponse 500 (JObj [(''data'', JStr ''block'')])" "''{ q }''"
                example_client "JStr ''block''"]
          doRequest_resolves_iff_200
            [of "\<lambda>url q. AxiosRejected (JsError ''Error'' ''Request failed with status code 404'')"
                "''{ q }''" example_client "JStr ''block''"]
          doRequest_resolves_iff_200
            [of "\<lambda>url q. AxiosResponse 200 Undefined" "''{ q }''" example_client "JStr ''block''"]
    by (simp add: s)
qed

text \<open>
  The status is 200 and nothing is returned: the body is \<open>null\<close>, and reading
  \<open>res.data.data\<close> throws.
\<close>

theorem doRequest_null_body_rejects:
  "fst (doRequest (\<lambda>url q. AxiosResponse 200 Null) ''{ q }'' example_client)
     = Rejected (Exception (type_error ''data'' ''null''))
   \<and> \<not> (\<exists>v. fst (doRequest (\<lambda>url q. AxiosResponse 200 Null) ''{ q }'' example_client)
              = Resolved v)"
  by (simp add: doRequest_def Let_def)

text \<open>
  C10. For every input string \<open>doRawQuery\<close> parses the query and prints it again. If
  either step throws, it throws an \<open>Error\<close> whose message begins with
  \<open>BaseClient: invalid raw query\<close> and the client is left as it was: no request is
  issued. Otherwise exactly the normalized text goes to \<open>_doRequest\<close>, once, and the
  promise of that request is what it returns.
\<close>

theorem doRawQuery_normalizes:
  "(parse_q query = Inl e \<or> (parse_q query = Inr ast \<and> print_q ast = Inl e) \<longrightarrow>
      doRawQuery parse_q print_q post query s =
        (Inl (JsError ''Error'' (''BaseClient: invalid raw query '' @ error_text e)), s))
   \<and> (parse_q query = Inr ast \<and> print_q ast = Inr clean \<longrightarrow>
      doRawQuery parse_q print_q post query s =
        (Inr (fst (doRequest post clean s)), snd (doRequest post clean s))
      \<and> http_posts (trace (snd (doRawQuery parse_q print_q post query s))) =
          http_posts (trace s) @ [(request_url (cfg s), clean)])"
proof -
  have "http_posts (trace (snd (doRequest post clean s))) =
          http_posts (trace s) @ [(request_url (cfg s), clean)]"
    by (simp add: doRequest_trace http_posts_append)
  then show ?thesis
    by (auto simp add: doRawQuery_def invalid_raw_query_def split: prod.splits)
qed

text \<open>
  With a parser that rejects \<open>{\<close> and a printer that drops commas: the broken query
  throws and sends nothing, the other one is sent as printed.
\<close>

theorem doRawQuery_normalizes_witness:
  "doRawQuery (\<lambda>q. if q = ''{'' then Inl (JsError ''GraphQLError'' ''Syntax Error: Expected Name, found <EOF>'')
                     else Inr q)
        (\<lambda>a. Inr (filter (\<lambda>c. c \<noteq> CHR '','') a))
        (\<lambda>url q. AxiosResponse 200 (JObj [(''data'', JStr q)])) ''{''
        example_client
     = (Inl (JsError ''Error''
          ''BaseClient: invalid raw query Syntax Error: Expected Name, found <EOF>''),
        example_client)
   \<and> fst (doRawQuery (\<lambda>q. if q = ''{'' then Inl (JsError ''GraphQLError'' ''Syntax Error: Expected Name, found <EOF>'')
                     else Inr q)
        (\<lambda>a. Inr (filter (\<lambda>c. c \<noteq> CHR '','') a))
        (\<lambda>url q. AxiosResponse 200 (JObj [(''data'', JStr q)])) ''{a,b}''
        example_client)
     = Inr (Resolved (JStr ''{ab}''))"
proof -
  let ?parse = "\<lambda>q. if q = ''{'' then Inl (JsError ''GraphQLError'' ''Syntax Error: Expected Name, found <EOF>'')
                     else (Inr q :: js_error + string)"
  let ?print = "\<lambda>a. (Inr (filter (\<lambda>c. c \<noteq> CHR '','') a) :: js_error + string)"
  let ?post = "\<lambda>(url :: string) q. AxiosResponse 200 (JObj [(''data'', JStr q)])"
  let ?s = example_client
  have r: "fst (doRequest ?post ''{ab}'' ?s) = Resolved (JStr ''{ab}'')"
    by (simp add: doRequest_def Let_def)
  show ?thesis
    using doRawQuery_normalizes
            [of ?parse "''{''" "JsError ''GraphQLError'' ''Syntax Error: Expected Name, found <EOF>''"
                "''x''" ?print ?post ?s "''y''"]
          doRawQuery_normalizes
            [of ?parse "''{a,b}''" "JsError ''GraphQLError'' ''Syntax Error: Expected Name, found <EOF>''"
                "''{a,b}''" ?print ?post ?s "''{ab}''"]
    by (simp add: error_text_def r)
qed

section \<open>Properties of the subscription channel\<close>

lemma map_of_assign_prop:
  "map_of (assign_prop k v kvs) k' = (if k' = k then Some v else map_of kvs k')"
  by (induction kvs) auto


lemma subscriptionFn_sequential:
  "subscriptionFn h b a jr dr s =
     (case b a of
        Inl e \<Rightarrow> (Rejected (Exception e), s)
      | Inr query \<Rightarrow>
          (case map_of (subscriptions s) (getQueryId h query) of
             Some r \<Rightarrow> (Resolved (emitterProperty h (emitter_ref r)), s)
           | None \<Rightarrow>
               (case ensureSubscriptionChannel jr s of
                  (Resolved (Some c), s1) \<Rightarrow>
                    doc_settled (getQueryId h query) dr
                      (s1\<lparr>trace := trace s1 @ [ChannelPush c ''doc'' query]\<rparr>)
                | (Resolved None, s1) \<Rightarrow>
                    (Rejected (Exception (type_error ''push'' ''undefined'')), s1)
                | (Rejected e, s1) \<Rightarrow> (Rejected e, s1)
                | (Pending, s1) \<Rightarrow> (Pending, s1))))"
  by (simp add: subscriptionFn_def subscriptionFn_begin_def subscriptionFn_resume_def
        ensureSubscriptionChannel_def Let_def
      split: sum.splits option.splits prod.splits join_state.splits)

lemma ensure_frame:
  "subscriptions (snd (ensureSubscriptionChannel jr s)) = subscriptions s
   \<and> doc_pushes (trace (snd (ensureSubscriptionChannel jr s))) = doc_pushes (trace s)
   \<and> next_ref s \<le> next_ref (snd (ensureSubscriptionChannel jr s))"
  by (simp add: ensureSubscriptionChannel_def ensureSubscriptionChannel_begin_def
        open_channel_def join_settled_def Let_def doc_pushes_append
      split: option.splits reply.splits)



lemma existing_record_reads_emitter_property:
  "b a = Inr q \<Longrightarrow> map_of (subscriptions s) (getQueryId h q) = Some r \<Longrightarrow>
   subscriptionFn h b a jr dr s = (Resolved (emitterProperty h (emitter_ref r)), s)"
  by (simp add: subscriptionFn_sequential)

lemma unjoined_channel_opens_socket:
  "channel s = None \<or> (\<exists>c. channel s = Some c \<and> c \<notin> set (joined s)) \<Longrightarrow>
   ensureSubscriptionChannel_begin s = open_channel s
   \<and> sockets_created (trace (snd (open_channel s))) = sockets_created (trace s) @ [next_ref s]
   \<and> joins_sent (trace (snd (open_channel s))) = joins_sent (trace s) @ [Suc (next_ref s)]
   \<and> joined (snd (open_channel s)) = joined s
   \<and> channel (snd (open_channel s)) = Some (Suc (next_ref s))"
  by (auto simp add: ensureSubscriptionChannel_begin_def open_channel_def Let_def
        sockets_created_append joins_sent_append)

lemma set_object_entries: "set (object_entries kvs) = set kvs"
  by (auto simp add: object_entries_def)


lemma object_entries_plain:
  "\<forall>(k, v) \<in> set kvs. \<not> is_array_index k \<Longrightarrow> object_entries kvs = kvs"
proof -
  assume a: "\<forall>(k, v) \<in> set kvs. \<not> is_array_index k"
  then have "filter (\<lambda>(k, v). is_array_index k) kvs = []"
    by (auto simp add: filter_empty_conv)
  moreover from a have "filter (\<lambda>(k, v). \<not> is_array_index k) kvs = kvs"
    by (auto simp add: filter_id_conv)
  ultimately show ?thesis by (simp add: object_entries_def)
qed

lemma object_entries_example:
  "object_entries [(''b'', 1 :: nat), (''10'', 2), (''a'', 3), (''9'', 4), (''07'', 5)] =
     [(''9'', 4), (''10'', 2), (''b'', 1), (''a'', 3), (''07'', 5)]"
  by (simp add: object_entries_def is_array_index_def is_digit_def index_value_def)

lemma emit_throws_trace [simp]: "emit_throws h (s\<lparr>trace := tr\<rparr>) r ev v = emit_throws h s r ev v"
  by (simp add: emit_throws_def)







lemma find_queryId_none:
  "get_prop payload ''subscriptionId'' = Inr sid \<Longrightarrow>
   \<forall>(queryId, r) \<in> set subs. \<not> strict_eq (subscriptionId r) sid \<Longrightarrow>
   find_queryId subs payload = Inr None"
  by (induction subs) auto

lemmas example_defs =
  example_client_def example_config_def example_user_config_def assign_config_def
  new_client_def node_hooks_def example_builder_def

lemma example_joined_state:
  "example_joined =
    example_client
      \<lparr>subscriptions :=
         [(''subscription { newTx(address: 0xa) { hash } }'',
           \<lparr>emitter_ref = 2, subscriptionId = JStr ''sub:1''\<rparr>)],
       socket := Some 0, channel := Some 1, joined := [1], next_ref := 3,
       trace :=
         [SocketNew 0 ''wss://ocap.arcblock.io/api/eth/socket'', SocketConnect 0,
          SocketOnMessage 0, SocketOnConnError 0, ChannelNew 1 0 ''__absinthe__:control'',
          ChannelJoin 1,
          ChannelPush 1 ''doc'' ''subscription { newTx(address: 0xa) { hash } }'']\<rparr>"
  by (simp add: example_joined_def subscriptionFn_sequential ensureSubscriptionChannel_def
        ensureSubscriptionChannel_begin_def open_channel_def join_settled_def doc_settled_def
        socket_url_of_def Let_def example_defs)

lemma first_subscription_example:
  "subscriptionFn node_hooks example_builder ''0xa'' (ReplyOk (JObj []))
     (ReplyOk (JObj [(''subscriptionId'', JStr ''sub:1'')])) example_client =
   (Resolved (Emitter 2), example_joined)"
  unfolding example_joined_def
  by (simp add: subscriptionFn_sequential ensureSubscriptionChannel_def
        ensureSubscriptionChannel_begin_def open_channel_def join_settled_def doc_settled_def
        socket_url_of_def Let_def example_defs)

lemma example_subscribed_state:
  "example_subscribed =
    example_client
      \<lparr>subscriptions :=
         [(''subscription { newTx(address: 0xa) { hash } }'',
           \<lparr>emitter_ref = 2, subscriptionId = JStr ''sub:1''\<rparr>),
          (''subscription { newTx(address: 0xb) { hash } }'',
           \<lparr>emitter_ref = 3, subscriptionId = JStr ''sub:2''\<rparr>)],
       socket := Some 0, channel := Some 1, joined := [1], next_ref := 4,
       trace :=
         [SocketNew 0 ''wss://ocap.arcblock.io/api/eth/socket'', SocketConnect 0,
          SocketOnMessage 0, SocketOnConnError 0, ChannelNew 1 0 ''__absinthe__:control'',
          ChannelJoin 1,
          ChannelPush 1 ''doc'' ''subscription { newTx(address: 0xa) { hash } }'',
          ChannelPush 1 ''doc'' ''subscription { newTx(address: 0xb) { hash } }'']\<rparr>"
  unfolding example_subscribed_def example_joined_state
  by (simp add: subscriptionFn_sequential ensureSubscriptionChannel_def
        ensureSubscriptionChannel_begin_def open_channel_def join_settled_def doc_settled_def
        socket_url_of_def Let_def example_defs)


lemma example_keys_plain:
  "object_entries (subscriptions example_subscribed) = subscriptions example_subscribed"
  by (rule object_entries_plain)
     (simp add: example_subscribed_state is_array_index_def is_digit_def)


lemma onMessage_known_subscription_example:
  "onMessage node_hooks
     \<lparr>msg_event = ''subscription:data'',
      msg_payload = JObj [(''subscriptionId'', JStr ''sub:2''),
                          (''result'', JObj [(''data'', JNum 1)])]\<rparr> example_subscribed
   = (None, example_subscribed\<lparr>trace := trace example_subscribed @ [Emit 3 ''data'' (JNum 1)]\<rparr>)"
  by (simp add: onMessage_def example_keys_plain)
     (simp add: example_subscribed_state emit_def emit_throws_def node_hooks_def
        example_client_def new_client_def)

text \<open>
  C1. Calling a generated subscription function twice with the same arguments is meant
  to give the same event emitter both times and to push \<open>doc\<close> once. On the example
  client, whose emitters have no property \<open>emitter\<close>, one push is indeed all that is
  sent; but the first call resolves with the emitter stored under the query id, and the
  second with the property \<open>emitter\<close> of that emitter, which is \<open>undefined\<close>.
\<close>

theorem resubscribe_returns_emitter_property:
  "subscriptionFn node_hooks example_builder ''0xa'' (ReplyOk (JObj []))
     (ReplyOk (JObj [(''subscriptionId'', JStr ''sub:1'')])) example_client
     = (Resolved (Emitter 2), example_joined)
   \<and> subscriptionFn node_hooks example_builder ''0xa'' (ReplyOk (JObj []))
       (ReplyOk (JObj [(''subscriptionId'', JStr ''sub:1'')])) example_joined
     = (Resolved (Plain Undefined), example_joined)
   \<and> doc_pushes (trace example_joined) = [(1, ''subscription { newTx(address: 0xa) { hash } }'')]"
  by (simp add: first_subscription_example)
     (simp add: example_joined_state subscriptionFn_sequential example_defs)




text \<open>
  C5. A \<open>subscription:data\<close> message whose \<open>payload.subscriptionId\<close> equals the
  \<open>subscriptionId\<close> of no entry of \<open>subscriptions\<close> changes nothing: the handler
  returns without an error, emits no event and leaves the client, its subscriptions
  included, as it was.
\<close>

theorem onMessage_unknown_subscription:
  "msg_event m = ''subscription:data'' \<Longrightarrow>
   get_prop (msg_payload m) ''subscriptionId'' = Inr sid \<Longrightarrow>
   \<forall>(queryId, r) \<in> set (subscriptions s). \<not> strict_eq (subscriptionId r) sid \<Longrightarrow>
   onMessage h m s = (None, s)"
  by (simp add: onMessage_def find_queryId_none set_object_entries)

text \<open>With \<open>sub:1\<close> and \<open>sub:2\<close> live, a message for \<open>sub:7\<close> is dropped.\<close>

theorem onMessage_unknown_subscription_witness:
  "onMessage node_hooks
     \<lparr>msg_event = ''subscription:data'',
      msg_payload = JObj [(''subscriptionId'', JStr ''sub:7''),
                          (''result'', JObj [(''data'', JNum 1)])]\<rparr> example_subscribed
   = (None, example_subscribed)"
  using onMessage_unknown_subscription
          [of "\<lparr>msg_event = ''subscription:data'',
              msg_payload = JObj [(''subscriptionId'', JStr ''sub:7''),
                                  (''result'', JObj [(''data'', JNum 1)])]\<rparr>"
              "JStr ''sub:7''" example_subscribed node_hooks]
  by (simp add: example_subscribed_state)

text \<open>
  C6. If the channel answers the \<open>doc\<close> push with \<open>error\<close>, the subscribe call
  is rejected with that error and no record is created: whatever else the call did,
  \<open>subscriptions\<close> is what it was before the call, and the query id still has no
  entry.
\<close>

theorem rejected_push_creates_no_record:
  "subscriptions (snd (subscriptionFn h b a jr (ReplyError err) s)) = subscriptions s
   \<and> (b a = Inr q \<longrightarrow> map_of (subscriptions s) (getQueryId h q) = None \<longrightarrow>
        fst (ensureSubscriptionChannel jr s) = Resolved (Some c) \<longrightarrow>
          fst (subscriptionFn h b a jr (ReplyError err) s) = Rejected (Payload err)
        \<and> map_of (subscriptions (snd (subscriptionFn h b a jr (ReplyError err) s))) (getQueryId h q) = None
        \<and> doc_pushes (trace (snd (subscriptionFn h b a jr (ReplyError err) s))) =
            doc_pushes (trace s) @ [(c, q)])"
proof -
  obtain out s1 where e: "ensureSubscriptionChannel jr s = (out, s1)"
    by (cases "ensureSubscriptionChannel jr s")
  from ensure_frame [of jr s] e have
    f: "subscriptions s1 = subscriptions s" "doc_pushes (trace s1) = doc_pushes (trace s)"
    by auto
  show ?thesis
    using e f
    by (auto simp add: subscriptionFn_sequential doc_settled_def doc_pushes_append
          split: sum.splits option.splits outcome.splits)
qed

text \<open>On the example client: the join is acknowledged, the push is refused.\<close>

theorem rejected_push_creates_no_record_witness:
  "subscriptionFn node_hooks example_builder ''0xa'' (ReplyOk (JObj []))
     (ReplyError (JObj [(''reason'', JStr ''unauthorized'')])) example_client
   = (Rejected (Payload (JObj [(''reason'', JStr ''unauthorized'')])),
      example_client
        \<lparr>socket := Some 0, channel := Some 1, joined := [1], next_ref := 2,
         trace :=
           [SocketNew 0 ''wss://ocap.arcblock.io/api/eth/socket'', SocketConnect 0,
            SocketOnMessage 0, SocketOnConnError 0, ChannelNew 1 0 ''__absinthe__:control'',
            ChannelJoin 1,
            ChannelPush 1 ''doc'' ''subscription { newTx(address: 0xa) { hash } }'']\<rparr>)
   \<and> subscriptions (snd (subscriptionFn node_hooks example_builder ''0xa'' (ReplyOk (JObj []))
         (ReplyError (JObj [(''reason'', JStr ''unauthorized'')])) example_client)) = []"
  using rejected_push_creates_no_record
          [of node_hooks example_builder "''0xa''" "ReplyOk (JObj [])"
              "JObj [(''reason'', JStr ''unauthorized'')]" example_client
              "''subscription { newTx(address: 0xa) { hash } }''" 1]
  by (simp add: subscriptionFn_sequential ensureSubscriptionChannel_def
        ensureSubscriptionChannel_begin_def open_channel_def join_settled_def doc_settled_def
        socket_url_of_def Let_def example_defs)



text \<open>
  C9. Subscribe calls that run while no channel is joined are meant to share one
  connection attempt. On the example client, a second call made before the join of the
  first is acknowledged creates a second socket and sends a second join: each call
  waits for a channel of its own.
\<close>

theorem concurrent_subscribes_open_two_sockets:
  "(case subscriptionFn_begin node_hooks example_builder ''0xa'' example_client of
      (st1, s1) \<Rightarrow>
        (case subscriptionFn_begin node_hooks example_builder ''0xb'' s1 of
           (st2, s2) \<Rightarrow>
             st1 = Awaiting ''subscription { newTx(address: 0xa) { hash } }''
                     ''subscription { newTx(address: 0xa) { hash } }'' (AwaitingJoin 1)
           \<and> st2 = Awaiting ''subscription { newTx(address: 0xb) { hash } }''
                     ''subscription { newTx(address: 0xb) { hash } }'' (AwaitingJoin 3)
           \<and> joined s1 = []
           \<and> sockets_created (trace s2) = [0, 2]
           \<and> joins_sent (trace s2) = [1, 3]))"
  by (simp add: subscriptionFn_begin_def ensureSubscriptionChannel_begin_def open_channel_def
        socket_url_of_def Let_def example_defs)

section \<open>Properties of the builders and of construction\<close>

lemma select_no_reentry:
  "select_type g ex path tn = Inr sels \<Longrightarrow> \<forall>sel \<in> set sels. no_reentry g (tn # path) sel"
  "select_fields g ex path tn fs = Inr sels' \<Longrightarrow> \<forall>sel \<in> set sels'. no_reentry g path sel"
proof (induction g ex path tn and g ex path tn fs arbitrary: sels and sels'
       rule: select_type_select_fields.induct)
  case (1 g ex path tn)
  then show ?case
    by (auto simp add: select_type.simps split: option.splits if_splits)
next
  case (2 g ex path tn)
  then show ?case by simp
next
  case (3 g ex path tn f fs)
  show ?case
  proof (cases "ex tn (field_name f)")
    case True
    with 3 show ?thesis by simp
  next
    case False
    let ?rn = "base_name (field_type f)"
    from False "3.prems" obtain rt where rt: "map_of g ?rn = Some rt"
      by (auto simp add: Let_def split: option.splits)
    show ?thesis
    proof (cases "type_kind rt = ObjectKind")
      case leaf: False
      from False rt leaf "3.prems" obtain rest where
        rest: "select_fields g ex path tn fs = Inr rest" "sels' = Selected (field_name f) ?rn [] # rest"
        by (auto simp add: Let_def split: sum.splits)
      from "3.IH"(2) [OF False refl rt leaf rest(1)] rt leaf rest(2) show ?thesis
        by (simp add: is_object_def)
    next
      case obj: True
      show ?thesis
      proof (cases "?rn \<in> set path")
        case True
        with False rt obj "3.prems" have "select_fields g ex path tn fs = Inr sels'"
          by (simp add: Let_def)
        from "3.IH"(3) [OF False refl rt _ True this] obj show ?thesis by simp
      next
        case fresh: False
        from False rt obj fresh "3.prems" obtain sub rest where
          sub: "select_type g ex path ?rn = Inr sub" and
          rest: "select_fields g ex path tn fs = Inr rest" and
          eq: "sels' = Selected (field_name f) ?rn sub # rest"
          by (auto simp add: Let_def split: sum.splits)
        have a: "\<not> type_kind rt \<noteq> ObjectKind" using obj by simp
        from "3.IH"(4) [OF False refl rt a fresh sub]
        have s: "\<forall>sel\<in>set sub. no_reentry g (?rn # path) sel" .
        from "3.IH"(5) [OF False refl rt a fresh sub rest]
        have r: "\<forall>sel\<in>set rest. no_reentry g path sel" .
        from s r eq fresh show ?thesis by simp
      qed
    qed
  qed
qed

lemma select_total:
  "closed_graph g \<Longrightarrow> map_of g tn \<noteq> None \<Longrightarrow> \<exists>sels. select_type g ex path tn = Inr sels"
  "closed_graph g \<Longrightarrow> \<forall>f \<in> set fs. map_of g (base_name (field_type f)) \<noteq> None \<Longrightarrow>
     \<exists>sels. select_fields g ex path tn fs = Inr sels"
proof (induction g ex path tn and g ex path tn fs rule: select_type_select_fields.induct)
  case (1 g ex path tn)
  from "1.prems" obtain t where t: "map_of g tn = Some t" by auto
  show ?case
  proof (cases "type_kind t = ObjectKind")
    case True
    from t have "(tn, t) \<in> set g" by (rule map_of_SomeD)
    with "1.prems"(1) have "\<forall>f \<in> set (type_fields t). map_of g (base_name (field_type f)) \<noteq> None"
      by (auto simp add: closed_graph_def)
    from "1.IH" [OF t True "1.prems"(1) this] t True show ?thesis
      by (simp add: select_type.simps)
  next
    case False
    with t show ?thesis by (simp add: select_type.simps)
  qed
next
  case (2 g ex path tn)
  then show ?case by simp
next
  case (3 g ex path tn f fs)
  let ?rn = "base_name (field_type f)"
  from "3.prems" obtain rt where rt: "map_of g ?rn = Some rt" by auto
  from "3.prems" have fs: "\<forall>f \<in> set fs. map_of g (base_name (field_type f)) \<noteq> None" by simp
  note cg = "3.prems"(1)
  show ?case
  proof (cases "ex tn (field_name f)")
    case True
    from "3.IH"(1) [OF True cg fs] True show ?thesis by simp
  next
    case False
    show ?thesis
    proof (cases "type_kind rt = ObjectKind")
      case leaf: False
      from "3.IH"(2) [OF False refl rt leaf cg fs] False rt leaf show ?thesis
        by (auto simp add: Let_def)
    next
      case obj: True
      then have a: "\<not> type_kind rt \<noteq> ObjectKind" by simp
      show ?thesis
      proof (cases "?rn \<in> set path")
        case True
        from "3.IH"(3) [OF False refl rt a True cg fs] False rt obj True show ?thesis
          by (simp add: Let_def)
      next
        case fresh: False
        have "map_of g ?rn \<noteq> None" using rt by simp
        from "3.IH"(4) [OF False refl rt a fresh cg this] obtain sub where
          sub: "select_type g ex path ?rn = Inr sub" by auto
        from "3.IH"(5) [OF False refl rt a fresh sub cg fs] obtain rest where
          "select_fields g ex path tn fs = Inr rest" by auto
        with False rt obj fresh sub show ?thesis
          by (simp add: Let_def)
      qed
    qed
  qed
qed

lemma select_error:
  "select_type g ex path tn = Inl e \<Longrightarrow> e = schema_inconsistency"
  "select_fields g ex path tn fs = Inl e \<Longrightarrow> e = schema_inconsistency"
proof (induction g ex path tn and g ex path tn fs rule: select_type_select_fields.induct)
  case (1 g ex path tn)
  then show ?case by (auto simp add: select_type.simps split: option.splits if_splits)
next
  case (2 g ex path tn)
  then show ?case by simp
next
  case (3 g ex path tn f fs)
  let ?rn = "base_name (field_type f)"
  show ?case
  proof (cases "ex tn (field_name f)")
    case True
    from "3.IH"(1) [OF True] "3.prems" True show ?thesis by simp
  next
    case False
    show ?thesis
    proof (cases "map_of g ?rn")
      case None
      with False "3.prems" show ?thesis by (simp add: Let_def)
    next
      case (Some rt)
      show ?thesis
      proof (cases "type_kind rt = ObjectKind")
        case leaf: False
        from False Some leaf "3.prems" have "select_fields g ex path tn fs = Inl e"
          by (simp add: Let_def split: sum.splits)
        from "3.IH"(2) [OF False refl Some leaf this] show ?thesis .
      next
        case obj: True
        then have a: "\<not> type_kind rt \<noteq> ObjectKind" by simp
        show ?thesis
        proof (cases "?rn \<in> set path")
          case True
          from False Some obj True "3.prems" have "select_fields g ex path tn fs = Inl e"
            by (simp add: Let_def)
          from "3.IH"(3) [OF False refl Some a True this] show ?thesis .
        next
          case fresh: False
          show ?thesis
          proof (cases "select_type g ex path ?rn")
            case (Inl e')
            with False Some obj fresh "3.prems" have "e' = e" by (simp add: Let_def)
            with "3.IH"(4) [OF False refl Some a fresh] Inl show ?thesis by simp
          next
            case (Inr sub)
            with False Some obj fresh "3.prems" have "select_fields g ex path tn fs = Inl e"
              by (simp add: Let_def split: sum.splits)
            from "3.IH"(5) [OF False refl Some a fresh Inr this] show ?thesis .
          qed
        qed
      qed
    qed
  qed
qed

lemma build_fields_error: "build_fields g ex fs = Inl e \<Longrightarrow> e = schema_inconsistency"
  by (induction fs) (auto split: sum.splits dest: select_error(1))

lemma buildOperations_error: "buildOperations g root ex = Inl e \<Longrightarrow> e = schema_inconsistency"
  by (auto simp add: buildOperations_def split: option.splits dest: build_fields_error)

lemma select_fields_fails:
  assumes "f \<in> set fs" and "\<not> ex tn (field_name f)"
    and "map_of g (base_name (field_type f)) = None
         \<or> (\<exists>rt. map_of g (base_name (field_type f)) = Some rt \<and> type_kind rt = ObjectKind
                \<and> base_name (field_type f) \<notin> set path
                \<and> select_type g ex path (base_name (field_type f)) = Inl schema_inconsistency)"
  shows "select_fields g ex path tn fs = Inl schema_inconsistency"
  using assms
proof (induction fs)
  case Nil
  then show ?case by simp
next
  case (Cons a fs)
  show ?case
  proof (cases "select_fields g ex path tn (a # fs)")
    case (Inl e)
    with select_error(2) [OF Inl] show ?thesis by simp
  next
    case (Inr sels)
    have "a \<noteq> f"
    proof
      assume "a = f"
      with Cons.prems(2,3) Inr show False
        by (auto simp add: Let_def split: sum.splits)
    qed
    with Cons.prems(1) have "f \<in> set fs" by auto
    from Cons.IH [OF this Cons.prems(2,3)]
    have "select_fields g ex path tn fs = Inl schema_inconsistency" .
    with Inr show ?thesis
      by (auto simp add: Let_def split: if_splits option.splits sum.splits)
  qed
qed

lemma dangling_chain_fails:
  "dangling_chain g ex (tn # ts) \<Longrightarrow> distinct (tn # ts) \<Longrightarrow> set (tn # ts) \<inter> set path = {} \<Longrightarrow>
   select_type g ex path tn = Inl schema_inconsistency"
proof (induction ts arbitrary: tn path)
  case Nil
  then show ?case by (simp add: select_type.simps)
next
  case (Cons un rest)
  from Cons.prems(1) obtain t f where
    t: "map_of g tn = Some t" "type_kind t = ObjectKind" and
    f: "f \<in> set (type_fields t)" "\<not> ex tn (field_name f)" "base_name (field_type f) = un" and
    ch: "dangling_chain g ex (un # rest)"
    by (auto split: option.splits)
  from Cons.prems(2,3) have d: "distinct (un # rest)" "set (un # rest) \<inter> set (tn # path) = {}"
    by auto
  from Cons.IH [OF ch d]
  have un: "select_type g ex (tn # path) un = Inl schema_inconsistency" .
  have "map_of g un = None
        \<or> (\<exists>rt. map_of g un = Some rt \<and> type_kind rt = ObjectKind \<and> un \<notin> set (tn # path)
              \<and> select_type g ex (tn # path) un = Inl schema_inconsistency)"
  proof (cases "map_of g un")
    case None
    then show ?thesis by simp
  next
    case (Some rt)
    with un have "type_kind rt = ObjectKind"
      by (auto simp add: select_type.simps split: if_splits)
    with Some un d show ?thesis by auto
  qed
  with f have "select_fields g ex (tn # path) tn (type_fields t) = Inl schema_inconsistency"
    by (intro select_fields_fails [of f]) auto
  with t show ?case by (simp add: select_type.simps)
qed

lemma build_fields_unresolved:
  "f \<in> set fs \<Longrightarrow> select_type g ex [] (base_name (field_type f)) = Inl schema_inconsistency \<Longrightarrow>
   build_fields g ex fs = Inl schema_inconsistency"
proof (induction fs)
  case Nil
  then show ?case by simp
next
  case (Cons a fs)
  show ?case
  proof (cases "select_type g ex [] (base_name (field_type a))")
    case (Inl e)
    with select_error(1) [OF Inl] show ?thesis by simp
  next
    case (Inr sel)
    with Cons.prems have "f \<in> set fs" by auto
    from Cons.IH [OF this Cons.prems(2)] Inr show ?thesis by simp
  qed
qed

lemma buildOperations_unresolved:
  "unresolved g ex root ts \<Longrightarrow> buildOperations g root ex = Inl schema_inconsistency"
proof (cases "map_of g root")
  case None
  then show ?thesis by (simp add: buildOperations_def)
next
  case (Some t)
  assume "unresolved g ex root ts"
  with Some obtain f where f: "f \<in> set (type_fields t)"
    "dangling_chain g ex (base_name (field_type f) # ts)" "distinct (base_name (field_type f) # ts)"
    by (auto simp add: unresolved_def)
  from dangling_chain_fails [OF f(2,3), of "[]"]
  have "select_type g ex [] (base_name (field_type f)) = Inl schema_inconsistency" by simp
  from build_fields_unresolved [OF f(1) this] Some show ?thesis
    by (simp add: buildOperations_def)
qed

lemma build_fields_no_reentry:
  "build_fields g ex fs = Inr ds \<Longrightarrow>
   list_all2 (\<lambda>f (k, d). k = field_name f \<and> op_args d = field_args f
        \<and> (\<forall>sel \<in> set (op_selection d). no_reentry g [base_name (field_type f)] sel)) fs ds"
proof (induction fs arbitrary: ds)
  case Nil
  then show ?case by simp
next
  case (Cons a fs)
  from Cons.prems obtain sel rest where
    sel: "select_type g ex [] (base_name (field_type a)) = Inr sel" and
    rest: "build_fields g ex fs = Inr rest" and
    ds: "ds = (field_name a, \<lparr>op_args = field_args a, op_selection = sel\<rparr>) # rest"
    by (auto split: sum.splits)
  from select_no_reentry(1) [OF sel] Cons.IH [OF rest] ds show ?case by simp
qed

lemma build_fields_total:
  "closed_graph g \<Longrightarrow> \<forall>f \<in> set fs. map_of g (base_name (field_type f)) \<noteq> None \<Longrightarrow>
   \<exists>ds. build_fields g ex fs = Inr ds"
proof (induction fs)
  case Nil
  then show ?case by simp
next
  case (Cons a fs)
  from Cons.prems have "map_of g (base_name (field_type a)) \<noteq> None" by simp
  from select_total(1) [OF Cons.prems(1) this] obtain sel where
    sel: "select_type g ex [] (base_name (field_type a)) = Inr sel" by blast
  from Cons.prems have "\<forall>f \<in> set fs. map_of g (base_name (field_type f)) \<noteq> None" by simp
  from Cons.IH [OF Cons.prems(1) this] obtain ds where "build_fields g ex fs = Inr ds"
    by blast
  with sel show ?case by simp
qed

lemma user_graph_closed: "closed_graph user_graph"
  by (simp add: closed_graph_def user_graph_def)

lemma user_graph_operations:
  "buildOperations user_graph ''Query'' (\<lambda>t f. False) =
     Inr [(''me'',
           \<lparr>op_args = [],
            op_selection =
              [Selected ''id'' ''ID'' [],
               Selected ''posts'' ''Post'' [Selected ''title'' ''String'' []]]\<rparr>)]"
  by (simp add: buildOperations_def user_graph_def select_type.simps)

text \<open>
  C2. For every type graph, a self-referential or otherwise cyclic one included,
  builder generation returns. When every reference of the graph resolves and the root
  type is in it, the result is the descriptors; whenever descriptors are the result,
  there is one for each field of the root type, and in the selection of each no field,
  at any depth, returns an object type that is already on the path from the operation's
  return type down to it: the cyclic field is left out where the recursion would enter
  its type again. The only error is \<open>SchemaInconsistency\<close>.
\<close>

theorem buildOperations_cyclic_graph:
  "(closed_graph g \<longrightarrow> map_of g root \<noteq> None \<longrightarrow> (\<exists>ds. buildOperations g root ex = Inr ds))
   \<and> (\<forall>ds t. buildOperations g root ex = Inr ds \<longrightarrow> map_of g root = Some t \<longrightarrow>
         list_all2 (\<lambda>f (k, d). k = field_name f \<and> op_args d = field_args f
              \<and> (\<forall>sel \<in> set (op_selection d). no_reentry g [base_name (field_type f)] sel))
           (type_fields t) ds)
   \<and> (\<forall>e. buildOperations g root ex = Inl e \<longrightarrow> e = schema_inconsistency)"
proof (intro conjI impI allI)
  assume cg: "closed_graph g" and "map_of g root \<noteq> None"
  then obtain t where t: "map_of g root = Some t" by auto
  then have "(root, t) \<in> set g" by (rule map_of_SomeD)
  with cg have "\<forall>f \<in> set (type_fields t). map_of g (base_name (field_type f)) \<noteq> None"
    by (auto simp add: closed_graph_def)
  from build_fields_total [OF cg this] t show "\<exists>ds. buildOperations g root ex = Inr ds"
    by (simp add: buildOperations_def)
next
  fix ds t
  assume "buildOperations g root ex = Inr ds" and "map_of g root = Some t"
  then have "build_fields g ex (type_fields t) = Inr ds"
    by (simp add: buildOperations_def)
  then show "list_all2 (\<lambda>f (k, d). k = field_name f \<and> op_args d = field_args f
              \<and> (\<forall>sel \<in> set (op_selection d). no_reentry g [base_name (field_type f)] sel))
           (type_fields t) ds"
    by (rule build_fields_no_reentry)
next
  fix e
  assume "buildOperations g root ex = Inl e"
  then show "e = schema_inconsistency" by (rule buildOperations_error)
qed

text \<open>
  In the example graph \<open>User.friend\<close> and \<open>Post.author\<close> return \<open>User\<close>: the
  selection of \<open>me\<close> keeps \<open>id\<close> and \<open>posts { title }\<close> and leaves both out.
\<close>

theorem buildOperations_cyclic_graph_witness:
  "closed_graph user_graph
   \<and> map_of user_graph ''User'' =
       Some \<lparr>type_kind = ObjectKind,
             type_fields =
               [\<lparr>field_name = ''id'', field_type = NonNull (Named ''ID''), field_args = []\<rparr>,
                \<lparr>field_name = ''friend'', field_type = Named ''User'', field_args = []\<rparr>,
                \<lparr>field_name = ''posts'', field_type = ListOf (Named ''Post''), field_args = []\<rparr>]\<rparr>
   \<and> buildOperations user_graph ''Query'' (\<lambda>t f. False) =
       Inr [(''me'',
             \<lparr>op_args = [],
              op_selection =
                [Selected ''id'' ''ID'' [],
                 Selected ''posts'' ''Post'' [Selected ''title'' ''String'' []]]\<rparr>)]
   \<and> no_reentry user_graph [''User'']
       (Selected ''posts'' ''Post'' [Selected ''title'' ''String'' []])"
  using buildOperations_cyclic_graph [of user_graph "''Query''" "\<lambda>t f. False"]
  by (simp add: user_graph_operations user_graph_closed) (simp add: user_graph_def)

lemma map_of_fold_assign:
  "n \<notin> fst ` set bs \<Longrightarrow>
   map_of (fold (\<lambda>(key, b). assign_prop key (f b)) bs m) n = map_of m n"
  by (induction bs arbitrary: m) (auto simp add: map_of_assign_prop)

lemma install_intact:
  "intact c sch th \<Longrightarrow> fst ` set builders \<inter> set construction_reads = {} \<Longrightarrow>
   intact c sch (install_fns k builders th)"
proof -
  assume i: "intact c sch th" and d: "fst ` set builders \<inter> set construction_reads = {}"
  have "map_of (own (install_fns k builders th)) n = map_of (own th) n"
    if "n \<in> set construction_reads" for n
  proof -
    from that d have "n \<notin> fst ` set (object_entries builders)"
      by (auto simp add: set_object_entries)
    then show ?thesis
      by (simp add: install_fns_def map_of_fold_assign)
  qed
  with i show ?thesis
    by (simp add: intact_def construction_reads_def)
qed

lemma build_fields_keys: "build_fields g ex fs = Inr ds \<Longrightarrow> map fst ds = map field_name fs"
  by (induction fs arbitrary: ds) (auto split: sum.splits)

lemma buildOperations_keys:
  "buildOperations g root ex = Inr ds \<Longrightarrow> fst ` set ds = set (root_fields g (Some root))"
proof -
  assume a: "buildOperations g root ex = Inr ds"
  then obtain t where t: "map_of g root = Some t" "build_fields g ex (type_fields t) = Inr ds"
    by (auto simp add: buildOperations_def split: option.splits)
  from build_fields_keys [OF t(2)] have "set (map fst ds) = set (map field_name (type_fields t))"
    by simp
  with t(1) show ?thesis by (simp add: root_fields_def)
qed

lemma intact_reads:
  "intact c sch th \<Longrightarrow> read_config th = Some c \<and> read_schema th = Some sch
     \<and> bound_ignoreFields ig th = (ig, th)
     \<and> call_method ''generateSubscriptionFns'' m th = m th
     \<and> call_method ''generateMutationFns'' m th = m th"
  by (auto simp add: intact_def read_config_def read_schema_def bound_ignoreFields_def
        call_method_def construction_reads_def split: option.splits member.splits)

lemma generate_intact:
  assumes i: "intact c sch th"
  shows "generateQueryFns spec_util ig th =
           (case queryType sch of
              None \<Rightarrow> Inr th
            | Some root \<Rightarrow>
                (case buildOperations (types sch) root ig of
                   Inl e \<Rightarrow> Inl e
                 | Inr bs \<Rightarrow> Inr (install_fns Query bs th)))"
    and "generateSubscriptionFns spec_util ig th =
           (case subscriptionType sch of
              None \<Rightarrow> Inr th
            | Some root \<Rightarrow>
                (case buildOperations (types sch) root ig of
                   Inl e \<Rightarrow> Inl e
                 | Inr bs \<Rightarrow> Inr (install_fns Subscription bs th)))"
    and "generateMutationFns spec_util ig th =
           (case mutationType sch of
              None \<Rightarrow> Inr th
            | Some root \<Rightarrow>
                (case buildOperations (types sch) root ig of
                   Inl e \<Rightarrow> Inl e
                 | Inr bs \<Rightarrow> Inr (install_fns Mutation bs th)))"
  using intact_reads [OF i]
  by (simp_all add: generateQueryFns_def generateSubscriptionFns_def generateMutationFns_def
        spec_util_def split: option.splits)

lemma generate_error:
  assumes i: "intact c sch th"
  shows "generateQueryFns spec_util ig th = Inl e \<Longrightarrow> e = schema_inconsistency"
    and "generateSubscriptionFns spec_util ig th = Inl e \<Longrightarrow> e = schema_inconsistency"
    and "generateMutationFns spec_util ig th = Inl e \<Longrightarrow> e = schema_inconsistency"
  by (auto simp add: generate_intact [OF i] split: option.splits sum.splits
        dest: buildOperations_error)

lemma generate_unresolved:
  assumes i: "intact c sch th" and un: "unresolved (types sch) ig root ts"
  shows "queryType sch = Some root \<Longrightarrow>
           generateQueryFns spec_util ig th = Inl schema_inconsistency"
    and "subscriptionType sch = Some root \<Longrightarrow>
           generateSubscriptionFns spec_util ig th = Inl schema_inconsistency"
    and "mutationType sch = Some root \<Longrightarrow>
           generateMutationFns spec_util ig th = Inl schema_inconsistency"
  by (simp_all add: generate_intact [OF i] buildOperations_unresolved [OF un])

lemma generate_keeps_intact:
  assumes i: "intact c sch th"
  shows "set (root_fields (types sch) (queryType sch)) \<inter> set construction_reads = {} \<Longrightarrow>
           generateQueryFns spec_util ig th = Inr th' \<Longrightarrow> intact c sch th'"
    and "set (root_fields (types sch) (subscriptionType sch)) \<inter> set construction_reads = {} \<Longrightarrow>
           generateSubscriptionFns spec_util ig th = Inr th' \<Longrightarrow> intact c sch th'"
  using i
  by (auto simp add: generate_intact [OF i] split: option.splits sum.splits
        dest!: buildOperations_keys intro!: install_intact)

lemma subscriptions_intact:
  "intact c sch th \<Longrightarrow>
   intact c sch (th\<lparr>own := assign_prop ''subscriptions'' SubscriptionsValue (own th)\<rparr>)"
  by (simp add: intact_def map_of_assign_prop construction_reads_def)

lemma steps_intact:
  assumes i: "intact c sch th"
  shows "query_step spec_util ig th =
           (if enableQuery c then call_method ''generateQueryFns'' (generateQueryFns spec_util ig) th
            else Inr th)"
    and "subscription_step spec_util ig th =
           (if enableSubscription c
            then (case generateSubscriptionFns spec_util ig th of
                    Inl e \<Rightarrow> Inl e
                  | Inr th' \<Rightarrow>
                      Inr (th'\<lparr>own := assign_prop ''subscriptions'' SubscriptionsValue (own th')\<rparr>))
            else Inr th)"
    and "mutation_step spec_util ig th =
           (if enableMutation c then generateMutationFns spec_util ig th else Inr th)"
  using intact_reads [OF i]
  by (simp_all add: query_step_def subscription_step_def mutation_step_def enabled_def)

text \<open>
  C4. When the generation for a kind of operation runs, and the root type of that kind
  is not in the type graph, or the return type of one of its fields is not, or leads to
  a reference that does not resolve, construction of the client raises
  \<open>SchemaInconsistency\<close>: the caller gets the error and no client, so none of the
  functions generated before the failure either. The generation of a kind runs when the
  configuration enables it, the schema names a root type for it, and no operation of a
  kind generated before it (the queries before the subscriptions, both before the
  mutations) is named \<open>config\<close>, \<open>schema\<close>, \<open>generateSubscriptionFns\<close>,
  \<open>generateMutationFns\<close> or \<open>_getIgnoreFields\<close>, so that the constructor still
  reads its own configuration, schema and methods.
\<close>

theorem unresolved_type_aborts_construction:
  assumes ds: "u_dataSource uc = Some ds" and ne: "ds \<noteq> []"
    and sch: "getSchema ds = Some sch"
    and en: "(enableQuery (assign_config uc ds) \<and> queryType sch = Some root)
           \<or> (enableSubscription (assign_config uc ds) \<and> subscriptionType sch = Some root
                \<and> set (root_fields (types sch) (queryType sch)) \<inter> set construction_reads = {})
           \<or> (enableMutation (assign_config uc ds) \<and> mutationType sch = Some root
                \<and> set (root_fields (types sch) (queryType sch)) \<inter> set construction_reads = {}
                \<and> set (root_fields (types sch) (subscriptionType sch)) \<inter> set construction_reads = {})"
    and un: "unresolved (types sch) ignoreFields root ts"
  shows "BaseClient getSchema ignoreFields spec_util uc = Inl schema_inconsistency"
proof -
  let ?c = "assign_config uc ds"
  let ?th0 = "\<lparr>own = [(''config'', ConfigValue ?c), (''schema'', SchemaValue sch)],
              generated_used = []\<rparr> :: op_descriptor this_object"
  have i0: "intact ?c sch ?th0"
    by (simp add: intact_def construction_reads_def)
  have m0: "call_method ''generateQueryFns'' m ?th0 = m ?th0" for m
    by (simp add: call_method_def)
  have b: "BaseClient getSchema ignoreFields spec_util uc =
             (case query_step spec_util ignoreFields ?th0 of
                Inl e \<Rightarrow> Inl e
              | Inr th1 \<Rightarrow>
                  (case subscription_step spec_util ignoreFields th1 of
                     Inl e \<Rightarrow> Inl e
                   | Inr th2 \<Rightarrow> mutation_step spec_util ignoreFields th2))"
    using ds ne sch by (simp add: BaseClient_def)
  show ?thesis
  proof (cases "query_step spec_util ignoreFields ?th0")
    case (Inl e)
    then have "e = schema_inconsistency"
      by (auto simp add: steps_intact(1) [OF i0] m0 split: if_splits
            dest: generate_error(1) [OF i0])
    with Inl b show ?thesis by simp
  next
    case q: (Inr th1)
    from q have nq: "\<not> (enableQuery ?c \<and> queryType sch = Some root)"
      by (auto simp add: steps_intact(1) [OF i0] m0 generate_unresolved(1) [OF i0 un])
    with en have fq: "set (root_fields (types sch) (queryType sch)) \<inter> set construction_reads = {}"
      by auto
    from q have i1: "intact ?c sch th1"
      using i0 generate_keeps_intact(1) [OF i0 fq]
      by (auto simp add: steps_intact(1) [OF i0] m0 split: if_splits)
    show ?thesis
    proof (cases "subscription_step spec_util ignoreFields th1")
      case (Inl e)
      then have "e = schema_inconsistency"
        by (auto simp add: steps_intact(2) [OF i1] split: if_splits sum.splits
              dest: generate_error(2) [OF i1])
      with Inl q b show ?thesis by simp
    next
      case s: (Inr th2)
      from s have ns: "\<not> (enableSubscription ?c \<and> subscriptionType sch = Some root)"
        by (auto simp add: steps_intact(2) [OF i1] generate_unresolved(2) [OF i1 un])
      with nq en have m: "enableMutation ?c" "mutationType sch = Some root"
        and fs: "set (root_fields (types sch) (subscriptionType sch)) \<inter> set construction_reads = {}"
        by auto
      from s have i2: "intact ?c sch th2"
        using i1 generate_keeps_intact(2) [OF i1 fs]
        by (auto simp add: steps_intact(2) [OF i1] split: if_splits sum.splits
              intro!: subscriptions_intact)
      from generate_unresolved(3) [OF i2 un m(2)] m(1)
      have "mutation_step spec_util ignoreFields th2 = Inl schema_inconsistency"
        by (simp add: steps_intact(3) [OF i2])
      with q s b show ?thesis by simp
    qed
  qed
qed

lemma broken_schema_unresolved: "unresolved (types broken_schema) ex ''Mutation'' ts"
  by (simp add: unresolved_def broken_schema_def user_graph_def)

lemma broken_schema_names:
  "root_fields (types broken_schema) (queryType broken_schema) = [''me'']"
  "root_fields (types broken_schema) (subscriptionType broken_schema) = []"
  by (simp_all add: root_fields_def broken_schema_def user_graph_def)

text \<open>
  The mutation root of the example schema is missing: the queries are generated, the
  mutations fail, and no client is returned.
\<close>

theorem unresolved_type_aborts_construction_witness:
  "enableMutation (assign_config example_user_config ''eth'')
   \<and> mutationType broken_schema = Some ''Mutation''
   \<and> map_of (types broken_schema) ''Mutation'' = None
   \<and> BaseClient (\<lambda>ds. if ds = ''eth'' then Some broken_schema else None) (\<lambda>t f. False)
       spec_util example_user_config = Inl schema_inconsistency"
  using unresolved_type_aborts_construction
          [of example_user_config "''eth''" "\<lambda>ds. if ds = ''eth'' then Some broken_schema else None"
              broken_schema "''Mutation''" "\<lambda>t f. False" "[]"]
        broken_schema_unresolved [of "\<lambda>t f. False" "[]"]
  by (simp add: example_user_config_def assign_config_def broken_schema_names
        construction_reads_def)
     (simp add: broken_schema_def user_graph_def)

lemma user_graph_plain_keys:
  "object_entries
     [(''me'',
       \<lparr>op_args = [],
        op_selection =
          [Selected ''id'' ''ID'' [],
           Selected ''posts'' ''Post'' [Selected ''title'' ''String'' []]]\<rparr>)] =
     [(''me'',
       \<lparr>op_args = [],
        op_selection =
          [Selected ''id'' ''ID'' [],
           Selected ''posts'' ''Post'' [Selected ''title'' ''String'' []]]\<rparr>)]"
  by (rule object_entries_plain) (simp add: is_array_index_def is_digit_def)

lemmas construction_defs =
  BaseClient_def query_step_def subscription_step_def mutation_step_def Let_def
  enabled_def read_config_def read_schema_def call_method_def
  bound_ignoreFields_def generateQueryFns_def generateSubscriptionFns_def
  generateMutationFns_def spec_util_def install_fns_def

lemma sound_schema_constructs:
  "BaseClient (\<lambda>ds. if ds = ''eth'' then Some (broken_schema\<lparr>mutationType := None\<rparr>) else None)
     (\<lambda>t f. False) spec_util example_user_config =
   Inr \<lparr>own =
          [(''config'', ConfigValue example_config),
           (''schema'', SchemaValue (broken_schema\<lparr>mutationType := None\<rparr>)),
           (''me'', Generated Query
              \<lparr>op_args = [],
               op_selection =
                 [Selected ''id'' ''ID'' [],
                  Selected ''posts'' ''Post'' [Selected ''title'' ''String'' []]]\<rparr>),
           (''subscriptions'', SubscriptionsValue)],
        generated_used = []\<rparr>"
  by (simp add: construction_defs example_user_config_def example_config_def
        broken_schema_def user_graph_operations user_graph_plain_keys)
     (simp add: assign_config_def)

lemma sound_schema_client:
  "client_of
     \<lparr>own =
        [(''config'', ConfigValue example_config),
         (''schema'', SchemaValue (broken_schema\<lparr>mutationType := None\<rparr>)),
         (''me'', Generated Query d),
         (''subscriptions'', SubscriptionsValue)],
      generated_used = []\<rparr> =
   Some (new_client example_config [(''me'', Query, d)])"
  by (simp add: client_of_def read_config_def member_names_def)

lemma shadowing_schema_operations:
  "buildOperations (types shadowing_schema) ''Query'' (\<lambda>t f. False) =
     Inr [(''schema'', \<lparr>op_args = [], op_selection = []\<rparr>)]"
  by (simp add: buildOperations_def shadowing_schema_def select_type.simps)

lemma shadowing_plain_keys:
  "object_entries [(''schema'', \<lparr>op_args = [], op_selection = []\<rparr>)] =
     [(''schema'', \<lparr>op_args = [], op_selection = []\<rparr>)]"
  by (rule object_entries_plain) (simp add: is_array_index_def is_digit_def)

lemma method_name_operation_skips_generation:
  "BaseClient
     (\<lambda>ds. Some (shadowing_schema
        \<lparr>types :=
           [(''Query'', \<lparr>type_kind = ObjectKind,
               type_fields = [\<lparr>field_name = ''generateMutationFns'', field_type = Named ''String'',
                               field_args = []\<rparr>]\<rparr>),
            (''String'', \<lparr>type_kind = ScalarKind, type_fields = []\<rparr>)]\<rparr>))
     (\<lambda>t f. False) spec_util example_user_config =
   Inr \<lparr>own =
          [(''config'', ConfigValue example_config),
           (''schema'', SchemaValue (shadowing_schema
              \<lparr>types :=
                 [(''Query'', \<lparr>type_kind = ObjectKind,
                     type_fields = [\<lparr>field_name = ''generateMutationFns'',
                                     field_type = Named ''String'', field_args = []\<rparr>]\<rparr>),
                  (''String'', \<lparr>type_kind = ScalarKind, type_fields = []\<rparr>)]\<rparr>)),
           (''generateMutationFns'', Generated Query \<lparr>op_args = [], op_selection = []\<rparr>),
           (''subscriptions'', SubscriptionsValue)],
        generated_used = [''generateMutationFns'']\<rparr>"
proof -
  have k: "object_entries [(''generateMutationFns'', \<lparr>op_args = [], op_selection = []\<rparr>)] =
             [(''generateMutationFns'', \<lparr>op_args = [], op_selection = []\<rparr>)]"
    by (rule object_entries_plain) (simp add: is_array_index_def is_digit_def)
  show ?thesis
    by (simp add: construction_defs example_user_config_def example_config_def
          shadowing_schema_def buildOperations_def select_type.simps k)
       (simp add: assign_config_def)
qed

text \<open>
  Without these conditions the constructor can complete although a root type is
  missing. With the mutations disabled, a mutation root that is not in the graph is
  never looked for. And with every kind enabled, a query named \<open>schema\<close> takes the
  place of \<open>this.schema\<close>: the later steps find no root type there and return, so
  the missing mutation root goes unnoticed.
\<close>

theorem unresolved_type_construction_completes:
  "mutationType broken_schema = Some ''Mutation''
   \<and> map_of (types broken_schema) ''Mutation'' = None
   \<and> BaseClient (\<lambda>ds. if ds = ''eth'' then Some broken_schema else None) (\<lambda>t f. False) spec_util
       (example_user_config\<lparr>u_enableMutation := Some False\<rparr>) =
     Inr \<lparr>own =
            [(''config'', ConfigValue (example_config\<lparr>enableMutation := False\<rparr>)),
             (''schema'', SchemaValue broken_schema),
             (''me'', Generated Query
                \<lparr>op_args = [],
                 op_selection =
                   [Selected ''id'' ''ID'' [],
                    Selected ''posts'' ''Post'' [Selected ''title'' ''String'' []]]\<rparr>),
             (''subscriptions'', SubscriptionsValue)],
          generated_used = []\<rparr>
   \<and> mutationType shadowing_schema = Some ''Mutation''
   \<and> map_of (types shadowing_schema) ''Mutation'' = None
   \<and> BaseClient (\<lambda>ds. if ds = ''eth'' then Some shadowing_schema else None) (\<lambda>t f. False)
       spec_util example_user_config =
     Inr \<lparr>own =
            [(''config'', ConfigValue example_config),
             (''schema'', Generated Query \<lparr>op_args = [], op_selection = []\<rparr>),
             (''subscriptions'', SubscriptionsValue)],
          generated_used = []\<rparr>"
proof -
  have a: "BaseClient (\<lambda>ds. if ds = ''eth'' then Some broken_schema else None) (\<lambda>t f. False) spec_util
       (example_user_config\<lparr>u_enableMutation := Some False\<rparr>) =
     Inr \<lparr>own =
            [(''config'', ConfigValue (example_config\<lparr>enableMutation := False\<rparr>)),
             (''schema'', SchemaValue broken_schema),
             (''me'', Generated Query
                \<lparr>op_args = [],
                 op_selection =
                   [Selected ''id'' ''ID'' [],
                    Selected ''posts'' ''Post'' [Selected ''title'' ''String'' []]]\<rparr>),
             (''subscriptions'', SubscriptionsValue)],
          generated_used = []\<rparr>"
    by (simp add: construction_defs example_user_config_def example_config_def
          broken_schema_def user_graph_operations user_graph_plain_keys)
       (simp add: assign_config_def)
  have b: "BaseClient (\<lambda>ds. if ds = ''eth'' then Some shadowing_schema else None) (\<lambda>t f. False)
       spec_util example_user_config =
     Inr \<lparr>own =
            [(''config'', ConfigValue example_config),
             (''schema'', Generated Query \<lparr>op_args = [], op_selection = []\<rparr>),
             (''subscriptions'', SubscriptionsValue)],
          generated_used = []\<rparr>"
    by (simp add: construction_defs example_user_config_def example_config_def
          shadowing_schema_def buildOperations_def select_type.simps shadowing_plain_keys)
       (simp add: assign_config_def)
  show ?thesis
    using a b by (simp add: broken_schema_def shadowing_schema_def user_graph_def)
qed

lemma dangling_schema_unresolved:
  "unresolved (types dangling_schema) (\<lambda>t f. False) ''Query'' [''Post'', ''String'']"
  by (simp add: unresolved_def dangling_schema_def user_graph_def)

lemma dangling_reference_below_aborts:
  "BaseClient (\<lambda>ds. if ds = ''eth'' then Some dangling_schema else None) (\<lambda>t f. False)
     spec_util example_user_config = (Inl schema_inconsistency :: js_error + op_descriptor this_object)"
  by (rule unresolved_type_aborts_construction
            [where ds = "''eth''" and sch = dangling_schema and root = "''Query''"
               and ts = "[''Post'', ''String'']"])
     (simp_all add: example_user_config_def assign_config_def dangling_schema_unresolved
        root_fields_def construction_reads_def,
      simp_all add: dangling_schema_def user_graph_def)

end
